theory Spec2Isabelle
  imports Complex_Main
begin

section \<open>JavaScript values\<close>

text \<open>
  A JavaScript \<^verbatim>\<open>number\<close> is an IEEE double. A finite one is modelled by the rational
  it stands for; NaN and the two infinities are values of their own. The sign of zero is
  not modelled.
\<close>

datatype jsnum = Num rat | NaN | PosInf | NegInf

text \<open>Truthiness of a number: \<^verbatim>\<open>0\<close> and \<^verbatim>\<open>NaN\<close> are falsy.\<close>

fun truthy_num :: "jsnum \<Rightarrow> bool" where
  "truthy_num (Num r) = (r \<noteq> 0)"
| "truthy_num NaN = False"
| "truthy_num PosInf = True"
| "truthy_num NegInf = True"

text \<open>\<^verbatim>\<open>a === b\<close> on numbers: NaN equals nothing, itself included.\<close>

fun strict_eq :: "jsnum \<Rightarrow> jsnum \<Rightarrow> bool" where
  "strict_eq (Num a) (Num b) = (a = b)"
| "strict_eq PosInf PosInf = True"
| "strict_eq NegInf NegInf = True"
| "strict_eq _ _ = False"

text \<open>\<^verbatim>\<open>Math.round\<close>: the nearest integer, halves going up.\<close>

fun Math_round :: "jsnum \<Rightarrow> jsnum" where
  "Math_round (Num r) = Num (of_int \<lfloor>r + 1 / 2\<rfloor>)"
| "Math_round NaN = NaN"
| "Math_round PosInf = PosInf"
| "Math_round NegInf = NegInf"

fun js_neg :: "jsnum \<Rightarrow> jsnum" where
  "js_neg (Num r) = Num (- r)"
| "js_neg NaN = NaN"
| "js_neg PosInf = NegInf"
| "js_neg NegInf = PosInf"

subsection \<open>Double arithmetic\<close>

text \<open>
  The result of an arithmetic operation is the exact result rounded to the nearest
  double, a tie going to the even significand: 53 significant bits, the smallest
  exponent \<open>-1022\<close> (below it the spacing stays \<open>2\<^sup>-\<^sup>1\<^sup>0\<^sup>7\<^sup>4\<close>), and an infinity from
  \<open>2\<^sup>1\<^sup>0\<^sup>2\<^sup>4\<close> on.
\<close>

function ilog2 :: "int \<Rightarrow> int" where
  "ilog2 n = (if n < 2 then 0 else 1 + ilog2 (n div 2))"
  by pat_completeness auto
termination
  by (relation "measure nat") auto

definition pow2 :: "int \<Rightarrow> rat" where
  "pow2 e = (if 0 \<le> e then 2 ^ nat e else 1 / 2 ^ nat (- e))"

text \<open>The binary exponent of a positive rational \<open>a\<close>: \<open>pow2 e \<le> a < pow2 (e + 1)\<close>.\<close>

definition expo :: "rat \<Rightarrow> int" where
  "expo a =
     (case quotient_of a of
        (n, d) \<Rightarrow>
          (let g = ilog2 n - ilog2 d
           in if pow2 g \<le> a then g else g - 1))"

definition round_half_even :: "rat \<Rightarrow> int" where
  "round_half_even q =
     (let f = \<lfloor>q\<rfloor>; r = q - of_int f
      in if r < 1 / 2 then f else if 1 / 2 < r then f + 1 else if even f then f else f + 1)"

definition to_double :: "rat \<Rightarrow> jsnum" where
  "to_double x =
     (if x = 0 then Num 0
      else
        (let e = max (expo \<bar>x\<bar>) (- 1022);
             u = pow2 (e - 52);
             y = of_int (round_half_even (x / u)) * u
         in if pow2 1024 \<le> \<bar>y\<bar> then (if 0 < x then PosInf else NegInf) else Num y))"

text \<open>\<^verbatim>\<open>a + b\<close>\<close>

fun js_add :: "jsnum \<Rightarrow> jsnum \<Rightarrow> jsnum" where
  "js_add (Num a) (Num b) = to_double (a + b)"
| "js_add NaN _ = NaN"
| "js_add _ NaN = NaN"
| "js_add PosInf NegInf = NaN"
| "js_add NegInf PosInf = NaN"
| "js_add PosInf _ = PosInf"
| "js_add NegInf _ = NegInf"
| "js_add _ PosInf = PosInf"
| "js_add _ NegInf = NegInf"

text \<open>\<^verbatim>\<open>a / 2\<close>\<close>

fun js_half :: "jsnum \<Rightarrow> jsnum" where
  "js_half (Num a) = to_double (a / 2)"
| "js_half v = v"

text \<open>
  Values that arrive as parsed JSON (the oracle's \<^verbatim>\<open>args\<close>, command parameters and
  command results).
\<close>

datatype json =
    JNull
  | JBool bool
  | JNum jsnum
  | JStr string
  | JArr "json list"
  | JObj "(string \<times> json) list"

fun truthy :: "json \<Rightarrow> bool" where
  "truthy JNull = False"
| "truthy (JBool b) = b"
| "truthy (JNum n) = truthy_num n"
| "truthy (JStr s) = (s \<noteq> [])"
| "truthy (JArr _) = True"
| "truthy (JObj _) = True"

text \<open>Property access \<^verbatim>\<open>v.name\<close> on a parsed value; \<open>None\<close> is \<^verbatim>\<open>undefined\<close>.\<close>

fun json_field :: "json \<Rightarrow> string \<Rightarrow> json option" where
  "json_field (JObj kvs) name = map_of kvs name"
| "json_field _ name = None"

text \<open>
  Two built-in conversions are parameters: \<^verbatim>\<open>parseInt\<close> on a string and the printing of
  a number. Neither throws.
\<close>

record builtins =
  js_parseInt :: "string \<Rightarrow> jsnum"
  js_numToString :: "jsnum \<Rightarrow> string"

text \<open>\<^verbatim>\<open>parts.join(sep)\<close>\<close>

fun join :: "string \<Rightarrow> string list \<Rightarrow> string" where
  "join sep [] = []"
| "join sep [s] = s"
| "join sep (s # t # rest) = s @ sep @ join sep (t # rest)"

text \<open>
  \<^verbatim>\<open>String(v)\<close>, and \<^verbatim>\<open>${v}\<close> in a template, on a parsed JSON value. An array prints its
  elements joined by commas, \<^verbatim>\<open>null\<close> elements as nothing. An object is converted through
  its \<^verbatim>\<open>toString\<close> property: the inherited one prints \<^verbatim>\<open>[object Object]\<close>; an own property
  of that name is a JSON value, not a function, the inherited \<^verbatim>\<open>valueOf\<close> gives back the
  object, and the conversion throws a \<^verbatim>\<open>TypeError\<close> (\<open>None\<close>).
\<close>

fun to_string :: "(jsnum \<Rightarrow> string) \<Rightarrow> json \<Rightarrow> string option" where
  "to_string ns JNull = Some ''null''"
| "to_string ns (JBool b) = Some (if b then ''true'' else ''false'')"
| "to_string ns (JNum n) = Some (ns n)"
| "to_string ns (JStr s) = Some s"
| "to_string ns (JArr xs) =
     (let parts = map (\<lambda>x. if x = JNull then Some [] else to_string ns x) xs
      in if None \<in> set parts then None else Some (join '','' (map the parts)))"
| "to_string ns (JObj kvs) =
     (if ''toString'' \<in> set (map fst kvs) then None else Some ''[object Object]'')"

definition js_String :: "builtins \<Rightarrow> json \<Rightarrow> string option" where
  "js_String js v = to_string (js_numToString js) v"

text \<open>The message of that \<^verbatim>\<open>TypeError\<close> in Chrome.\<close>

definition type_error_message :: string where
  "type_error_message = ''Cannot convert object to primitive value''"

section \<open>Shared types (\<^verbatim>\<open>shared/types.ts\<close>)\<close>

record dom_rect =
  r_x :: rat
  r_y :: rat
  r_width :: rat
  r_height :: rat
  r_left :: rat
  r_top :: rat
  r_right :: rat
  r_bottom :: rat

text \<open>
  \<^verbatim>\<open>MarkedElement\<close>. The identifier and the box come from the page (an array index and a
  \<^verbatim>\<open>DOMRect\<close>), so they are finite numbers: each field holds the value of a double.
\<close>

record marked_element =
  el_id :: rat
  el_tagName :: string
  el_text :: string
  el_rect :: dom_rect
  el_attributes :: "(string \<times> string) list option"
  el_scrollable :: "bool option"

text \<open>
  \<^verbatim>\<open>AIAction\<close>. Every optional field is an \<open>option\<close> (\<open>None\<close> is \<^verbatim>\<open>undefined\<close>).
  The fields hold what the code can put there at run time: \<^verbatim>\<open>type\<close> and
  \<^verbatim>\<open>direction\<close> are strings (the \<^verbatim>\<open>switch\<close> has a \<^verbatim>\<open>default\<close> branch, and the direction
  is a cast \<^verbatim>\<open>String(...)\<close>), \<^verbatim>\<open>url\<close> is whatever \<^verbatim>\<open>args[0]\<close> was.
\<close>

record ai_action =
  a_type :: string
  a_elementId :: "jsnum option"
  a_text :: "string option"
  a_direction :: "string option"
  a_duration :: "jsnum option"
  a_x :: "jsnum option"
  a_y :: "jsnum option"
  a_url :: "json option"
  a_amount :: "jsnum option"

definition action :: "string \<Rightarrow> ai_action" where
  "action ty = \<lparr> a_type = ty, a_elementId = None, a_text = None, a_direction = None,
                 a_duration = None, a_x = None, a_y = None, a_url = None, a_amount = None \<rparr>"

record action_result =
  success :: bool
  message :: string
  error :: "string option"
  reasoning :: "string option"

text \<open>Truthiness of optional fields.\<close>

definition truthy_opt_num :: "jsnum option \<Rightarrow> bool" where
  "truthy_opt_num v = (case v of None \<Rightarrow> False | Some n \<Rightarrow> truthy_num n)"

definition truthy_opt_str :: "string option \<Rightarrow> bool" where
  "truthy_opt_str v = (case v of None \<Rightarrow> False | Some s \<Rightarrow> s \<noteq> [])"

definition truthy_opt :: "json option \<Rightarrow> bool" where
  "truthy_opt v = (case v of None \<Rightarrow> False | Some j \<Rightarrow> truthy j)"

text \<open>\<^verbatim>\<open>v || d\<close> on an optional number.\<close>

definition num_or :: "jsnum option \<Rightarrow> jsnum \<Rightarrow> jsnum" where
  "num_or v d = (case v of None \<Rightarrow> d | Some n \<Rightarrow> if truthy_num n then n else d)"

section \<open>The host and the protocol trace\<close>

text \<open>
  What the session does to the outside world is recorded as a trace: the calls to
  \<^verbatim>\<open>chrome.debugger\<close> (attach, detach, sendCommand) and the timed waits, in order.
  The world also numbers the session objects created so far, which gives each
  \<^verbatim>\<open>new CDPSession\<close> an identity.
\<close>

datatype event =
    Attach int
  | Detach int
  | Send int string "json option"
  | Sleep jsnum

record world =
  trace :: "event list"
  next_sid :: nat

text \<open>
  The host answers each call; its answer may depend on everything done so far.
  \<open>tabs_get\<close> is \<^verbatim>\<open>chrome.tabs.get\<close>: it rejects (\<open>Inl\<close>), or yields no tab, or a tab
  with an optional URL. The debugger calls reject with a message or succeed.
\<close>

record tab_info =
  ti_url :: "string option"

record host =
  tabs_get :: "event list \<Rightarrow> int \<Rightarrow> string + tab_info option"
  debugger_attach :: "event list \<Rightarrow> int \<Rightarrow> string option"
  debugger_detach :: "event list \<Rightarrow> int \<Rightarrow> string option"
  debugger_send :: "event list \<Rightarrow> int \<Rightarrow> string \<Rightarrow> json option \<Rightarrow> string + json"

text \<open>
  The errors the background code throws, one constructor per message.
  \<open>PropertyOfNothing\<close> is the \<^verbatim>\<open>TypeError\<close> of reading a property of \<^verbatim>\<open>undefined\<close>; the
  last four wrap the error caught inside a command.
\<close>

datatype err =
    NotConnected
  | ProtectedTab
  | HostError string
  | ElementNotFound jsnum
  | ClickRequiresTarget
  | TypeRequiresText
  | ScrollRequiresDirection
  | NavigateRequiresUrl
  | UnknownActionType string
  | SessionNotAvailable
  | PropertyOfNothing
  | ScreenshotFailed err
  | ClickFailed err
  | TypeFailed err
  | ScrollFailed err

type_synonym 'a io = "world \<Rightarrow> (err + 'a) \<times> world"

definition io_return :: "'a \<Rightarrow> 'a io" where
  "io_return v w = (Inr v, w)"

definition io_throw :: "err \<Rightarrow> 'a io" where
  "io_throw e w = (Inl e, w)"

definition io_bind :: "'a io \<Rightarrow> ('a \<Rightarrow> 'b io) \<Rightarrow> 'b io" where
  "io_bind m f w = (case m w of (Inl e, w') \<Rightarrow> (Inl e, w') | (Inr v, w') \<Rightarrow> f v w')"

definition io_then :: "'a io \<Rightarrow> 'b io \<Rightarrow> 'b io" where
  "io_then m n = io_bind m (\<lambda>_. n)"

definition io_catch :: "'a io \<Rightarrow> (err \<Rightarrow> 'a io) \<Rightarrow> 'a io" where
  "io_catch m f w = (case m w of (Inl e, w') \<Rightarrow> f e w' | (Inr v, w') \<Rightarrow> (Inr v, w'))"

definition emit :: "event \<Rightarrow> world \<Rightarrow> world" where
  "emit e w = w\<lparr> trace := trace w @ [e] \<rparr>"

section \<open>\<^verbatim>\<open>CDPSession\<close> (\<^verbatim>\<open>background/cdp-session.ts\<close>)\<close>

record cdp_session =
  sid :: nat
  s_tabId :: int
  connected :: bool

text \<open>\<^verbatim>\<open>new CDPSession(tabId)\<close>: a fresh object, not connected.\<close>

definition new_CDPSession :: "int \<Rightarrow> world \<Rightarrow> cdp_session \<times> world" where
  "new_CDPSession tabId w =
     (\<lparr> sid = next_sid w, s_tabId = tabId, connected = False \<rparr>, w\<lparr> next_sid := Suc (next_sid w) \<rparr>)"

definition sendCommand :: "host \<Rightarrow> cdp_session \<Rightarrow> string \<Rightarrow> json option \<Rightarrow> json io" where
  "sendCommand h s method params w =
     (case debugger_send h (trace w) (s_tabId s) method params of
        Inl msg \<Rightarrow> (Inl (HostError msg), emit (Send (s_tabId s) method params) w)
      | Inr result \<Rightarrow> (Inr result, emit (Send (s_tabId s) method params) w))"

definition wait :: "jsnum \<Rightarrow> unit io" where
  "wait ms w = (Inr (), emit (Sleep ms) w)"

definition starts_with :: "string \<Rightarrow> string \<Rightarrow> bool" where
  "starts_with s p = (take (length p) s = p)"

text \<open>
  \<^verbatim>\<open>connect\<close>: returns the outcome and the session with its flag as the call leaves it.
\<close>

definition connect :: "host \<Rightarrow> cdp_session \<Rightarrow> world \<Rightarrow> (err + unit) \<times> cdp_session \<times> world" where
  "connect h s w =
     (case tabs_get h (trace w) (s_tabId s) of
        Inl msg \<Rightarrow> (Inl (HostError msg), s\<lparr> connected := False \<rparr>, w)
      | Inr None \<Rightarrow> (Inl ProtectedTab, s\<lparr> connected := False \<rparr>, w)
      | Inr (Some tab) \<Rightarrow>
          (case ti_url tab of
             None \<Rightarrow> (Inl ProtectedTab, s\<lparr> connected := False \<rparr>, w)
           | Some url \<Rightarrow>
               if url = [] \<or> starts_with url ''chrome://'' \<or> starts_with url ''chrome-extension://''
               then (Inl ProtectedTab, s\<lparr> connected := False \<rparr>, w)
               else
                 (case debugger_attach h (trace w) (s_tabId s) of
                    Some msg \<Rightarrow> (Inl (HostError msg), s\<lparr> connected := False \<rparr>, emit (Attach (s_tabId s)) w)
                  | None \<Rightarrow>
                      (case sendCommand h (s\<lparr> connected := True \<rparr>) ''Page.enable'' None
                              (emit (Attach (s_tabId s)) w) of
                         (Inl e, w') \<Rightarrow> (Inl e, s\<lparr> connected := False \<rparr>, w')
                       | (Inr _, w') \<Rightarrow> (Inr (), s\<lparr> connected := True \<rparr>, w')))))"

text \<open>\<^verbatim>\<open>disconnect\<close> never throws; a failing detach leaves the flag set.\<close>

definition disconnect :: "host \<Rightarrow> cdp_session \<Rightarrow> world \<Rightarrow> cdp_session \<times> world" where
  "disconnect h s w =
     (if connected s then
        (case debugger_detach h (trace w) (s_tabId s) of
           None \<Rightarrow> (s\<lparr> connected := False \<rparr>, emit (Detach (s_tabId s)) w)
         | Some msg \<Rightarrow> (s, emit (Detach (s_tabId s)) w))
      else (s, w))"

definition isConnected :: "cdp_session \<Rightarrow> bool" where
  "isConnected s = connected s"

record screenshot_data =
  sd_data :: "json option"
  sd_width :: "json option"
  sd_height :: "json option"

definition captureScreenshot :: "host \<Rightarrow> cdp_session \<Rightarrow> screenshot_data io" where
  "captureScreenshot h s =
     (if \<not> connected s then io_throw NotConnected
      else
        io_catch
          (io_bind
             (sendCommand h s ''Page.captureScreenshot''
                (Some (JObj [(''format'', JStr ''png''), (''quality'', JNum (Num 80)),
                             (''captureBeyondViewport'', JBool False)])))
             (\<lambda>result.
                if result = JNull then io_throw PropertyOfNothing
                else io_return \<lparr> sd_data = json_field result ''data'',
                                  sd_width = json_field result ''width'',
                                  sd_height = json_field result ''height'' \<rparr>))
          (\<lambda>e. io_throw (ScreenshotFailed e)))"

definition mouse_event :: "string \<Rightarrow> jsnum \<Rightarrow> jsnum \<Rightarrow> string \<Rightarrow> rat \<Rightarrow> json" where
  "mouse_event ty x y button clickCount =
     JObj [(''type'', JStr ty), (''x'', JNum (Math_round x)), (''y'', JNum (Math_round y)),
           (''button'', JStr button), (''clickCount'', JNum (Num clickCount))]"

definition simulateClick :: "host \<Rightarrow> cdp_session \<Rightarrow> jsnum \<Rightarrow> jsnum \<Rightarrow> unit io" where
  "simulateClick h s x y =
     (if \<not> connected s then io_throw NotConnected
      else
        io_catch
          (io_then (sendCommand h s ''Input.dispatchMouseEvent''
                      (Some (mouse_event ''mouseMoved'' x y ''none'' 0)))
          (io_then (sendCommand h s ''Input.dispatchMouseEvent''
                      (Some (mouse_event ''mousePressed'' x y ''left'' 1)))
          (io_then (wait (Num 50))
          (io_then (sendCommand h s ''Input.dispatchMouseEvent''
                      (Some (mouse_event ''mouseReleased'' x y ''left'' 1)))
                   (io_return ())))))
          (\<lambda>e. io_throw (ClickFailed e)))"

definition simulateType :: "host \<Rightarrow> cdp_session \<Rightarrow> string \<Rightarrow> unit io" where
  "simulateType h s text =
     (if \<not> connected s then io_throw NotConnected
      else
        io_catch
          (io_then (sendCommand h s ''Input.insertText'' (Some (JObj [(''text'', JStr text)])))
                   (io_return ()))
          (\<lambda>e. io_throw (TypeFailed e)))"

definition simulateScroll ::
  "host \<Rightarrow> cdp_session \<Rightarrow> string \<Rightarrow> jsnum \<Rightarrow> jsnum option \<Rightarrow> jsnum option \<Rightarrow> unit io" where
  "simulateScroll h s direction amount x y =
     (if \<not> connected s then io_throw NotConnected
      else
        io_catch
          (let deltaY = (if direction = ''down'' then amount else js_neg amount);
               scrollX = (case x of Some v \<Rightarrow> v | None \<Rightarrow> Num 400);
               scrollY = (case y of Some v \<Rightarrow> v | None \<Rightarrow> Num 300)
           in io_then (sendCommand h s ''Input.dispatchMouseEvent''
                         (Some (JObj [(''type'', JStr ''mouseWheel''), (''x'', JNum scrollX),
                                      (''y'', JNum scrollY), (''deltaX'', JNum (Num 0)),
                                      (''deltaY'', JNum deltaY)])))
                      (io_return ()))
          (\<lambda>e. io_throw (ScrollFailed e)))"

text \<open>\<^verbatim>\<open>elements.find(el => el.id === action.elementId)\<close>: the first match.\<close>

definition find_element :: "marked_element list \<Rightarrow> jsnum \<Rightarrow> marked_element option" where
  "find_element elements elementId = List.find (\<lambda>el. strict_eq (Num (el_id el)) elementId) elements"

text \<open>
  \<^verbatim>\<open>element.rect.left + element.rect.width / 2\<close> and its counterpart, in double
  arithmetic. The fields of the box are numbers of the page, so a rational given for one
  is read as the double nearest to it.
\<close>

definition center_x :: "marked_element \<Rightarrow> jsnum" where
  "center_x element =
     js_add (to_double (r_left (el_rect element))) (js_half (to_double (r_width (el_rect element))))"

definition center_y :: "marked_element \<Rightarrow> jsnum" where
  "center_y element =
     js_add (to_double (r_top (el_rect element))) (js_half (to_double (r_height (el_rect element))))"

definition key_event :: "string \<Rightarrow> string \<Rightarrow> json" where
  "key_event ty k = JObj [(''type'', JStr ty), (''key'', JStr k)]"

text \<open>The branches of the \<^verbatim>\<open>switch\<close> in \<^verbatim>\<open>executeAction\<close>, in source order.\<close>

definition executeAction_click ::
  "host \<Rightarrow> cdp_session \<Rightarrow> ai_action \<Rightarrow> marked_element list option \<Rightarrow> unit io" where
  "executeAction_click h s a elements =
     (case (a_elementId a, elements) of
        (Some elementId, Some els) \<Rightarrow>
          (case find_element els elementId of
             None \<Rightarrow> io_throw (ElementNotFound elementId)
           | Some element \<Rightarrow> simulateClick h s (center_x element) (center_y element))
      | _ \<Rightarrow>
          (case (a_x a, a_y a) of
             (Some x, Some y) \<Rightarrow> simulateClick h s x y
           | _ \<Rightarrow> io_throw ClickRequiresTarget))"

definition executeAction_type ::
  "host \<Rightarrow> cdp_session \<Rightarrow> ai_action \<Rightarrow> marked_element list option \<Rightarrow> unit io" where
  "executeAction_type h s a elements =
     (if truthy_opt_num (a_elementId a) \<and> elements \<noteq> None \<and> truthy_opt_str (a_text a) then
        (case find_element (the elements) (the (a_elementId a)) of
           None \<Rightarrow> io_throw (ElementNotFound (the (a_elementId a)))
         | Some element \<Rightarrow>
             io_then (simulateClick h s (center_x element) (center_y element))
            (io_then (wait (Num 100))
            (io_then (sendCommand h s ''Input.dispatchKeyEvent'' (Some (key_event ''keyDown'' ''Meta'')))
            (io_then (sendCommand h s ''Input.dispatchKeyEvent'' (Some (key_event ''keyDown'' ''a'')))
            (io_then (sendCommand h s ''Input.dispatchKeyEvent'' (Some (key_event ''keyUp'' ''a'')))
            (io_then (sendCommand h s ''Input.dispatchKeyEvent'' (Some (key_event ''keyUp'' ''Meta'')))
                     (simulateType h s (the (a_text a)))))))))
      else if truthy_opt_str (a_text a) then simulateType h s (the (a_text a))
      else io_throw TypeRequiresText)"

definition executeAction_scroll ::
  "host \<Rightarrow> cdp_session \<Rightarrow> ai_action \<Rightarrow> marked_element list option \<Rightarrow> unit io" where
  "executeAction_scroll h s a elements =
     (if \<not> truthy_opt_str (a_direction a) then io_throw ScrollRequiresDirection
      else
        (case (a_elementId a, elements) of
           (Some elementId, Some els) \<Rightarrow>
             (case find_element els elementId of
                None \<Rightarrow> io_throw (ElementNotFound elementId)
              | Some element \<Rightarrow>
                  simulateScroll h s (the (a_direction a)) (num_or (a_amount a) (Num 300))
                    (Some (center_x element)) (Some (center_y element)))
         | _ \<Rightarrow>
             (case (a_x a, a_y a) of
                (Some x, Some y) \<Rightarrow>
                  simulateScroll h s (the (a_direction a)) (num_or (a_amount a) (Num 300)) (Some x) (Some y)
              | _ \<Rightarrow>
                  simulateScroll h s (the (a_direction a)) (num_or (a_amount a) (Num 300)) None None)))"

definition executeAction_navigate :: "host \<Rightarrow> cdp_session \<Rightarrow> ai_action \<Rightarrow> unit io" where
  "executeAction_navigate h s a =
     (if \<not> truthy_opt (a_url a) then io_throw NavigateRequiresUrl
      else
        io_then (sendCommand h s ''Page.navigate'' (Some (JObj [(''url'', the (a_url a))])))
                (wait (Num 3000)))"

definition executeAction ::
  "host \<Rightarrow> cdp_session \<Rightarrow> ai_action \<Rightarrow> marked_element list option \<Rightarrow> unit io" where
  "executeAction h s a elements =
     (if a_type a = ''click'' then executeAction_click h s a elements
      else if a_type a = ''type'' then executeAction_type h s a elements
      else if a_type a = ''scroll'' then executeAction_scroll h s a elements
      else if a_type a = ''wait'' then wait (num_or (a_duration a) (Num 2000))
      else if a_type a = ''navigate'' then executeAction_navigate h s a
      else if a_type a = ''done'' then io_return ()
      else io_throw (UnknownActionType (a_type a)))"

section \<open>\<^verbatim>\<open>Document\<close> (\<^verbatim>\<open>background/document.ts\<close>)\<close>

record document =
  d_elements :: "marked_element list"
  d_url :: string
  d_isMarked :: bool

definition new_Document :: document where
  "new_Document = \<lparr> d_elements = [], d_url = [], d_isMarked = False \<rparr>"

definition updateUrl :: "string \<Rightarrow> document \<Rightarrow> document" where
  "updateUrl url d =
     (if d_url d \<noteq> url then d\<lparr> d_elements := [], d_isMarked := False, d_url := url \<rparr> else d)"

text \<open>
  \<^verbatim>\<open>Document.clearMarkers\<close> asks the content script to remove its markers. It catches
  every failure, and every path through it ends with \<^verbatim>\<open>isMarked = false\<close>. The content
  script is not part of the protocol trace.
\<close>

definition Document_clearMarkers :: "document \<Rightarrow> document" where
  "Document_clearMarkers d = d\<lparr> d_isMarked := False \<rparr>"

section \<open>\<^verbatim>\<open>Tab\<close> (\<^verbatim>\<open>background/tab.ts\<close>)\<close>

record tab =
  t_tabId :: int
  t_document :: "document option"
  t_cdpSession :: "cdp_session option"
  t_url :: string
  t_isInitialized :: bool

definition new_Tab :: "int \<Rightarrow> string \<Rightarrow> tab" where
  "new_Tab tabId url =
     \<lparr> t_tabId = tabId, t_document = None, t_cdpSession = None, t_url = url,
       t_isInitialized = False \<rparr>"

definition Tab_initialize :: "tab \<Rightarrow> tab" where
  "Tab_initialize t =
     (if t_isInitialized t then t
      else t\<lparr> t_document := Some (updateUrl (t_url t) new_Document), t_isInitialized := True \<rparr>)"

text \<open>
  \<^verbatim>\<open>ensureCDPConnection\<close>. The new session is stored in the field before \<^verbatim>\<open>connect\<close>
  runs, so it stays there when \<^verbatim>\<open>connect\<close> throws.
\<close>

definition ensureCDPConnection :: "host \<Rightarrow> tab \<Rightarrow> world \<Rightarrow> (err + unit) \<times> tab \<times> world" where
  "ensureCDPConnection h t w =
     (if (case t_cdpSession t of None \<Rightarrow> True | Some s \<Rightarrow> \<not> isConnected s) then
        (let w1 = (case t_cdpSession t of Some old \<Rightarrow> snd (disconnect h old w) | None \<Rightarrow> w)
         in case new_CDPSession (t_tabId t) w1 of
              (s, w2) \<Rightarrow>
                (case connect h s w2 of
                   (r, s', w3) \<Rightarrow> (r, t\<lparr> t_cdpSession := Some s' \<rparr>, w3)))
      else (Inr (), t, w))"



definition onUrlChanged :: "host \<Rightarrow> string \<Rightarrow> tab \<Rightarrow> world \<Rightarrow> tab \<times> world" where
  "onUrlChanged h newUrl t w =
     (let t1 = t\<lparr> t_url := newUrl \<rparr>;
          t2 = (case t_document t1 of
                  Some d \<Rightarrow> t1\<lparr> t_document := Some (updateUrl newUrl d) \<rparr>
                | None \<Rightarrow> t1)
      in case t_cdpSession t2 of
           Some s \<Rightarrow> (t2\<lparr> t_cdpSession := None \<rparr>, snd (disconnect h s w))
         | None \<Rightarrow> (t2, w))"

definition Tab_onDebuggerDetached :: "tab \<Rightarrow> tab" where
  "Tab_onDebuggerDetached t =
     (case t_cdpSession t of Some s \<Rightarrow> t\<lparr> t_cdpSession := None \<rparr> | None \<Rightarrow> t)"

text \<open>
  \<^verbatim>\<open>destroy\<close>: the document's markers are cleared before the document is dropped; since
  the field becomes \<^verbatim>\<open>null\<close>, nothing of the cleared document remains.
\<close>

definition Tab_destroy :: "host \<Rightarrow> tab \<Rightarrow> world \<Rightarrow> tab \<times> world" where
  "Tab_destroy h t w =
     (case (case t_cdpSession t of
              Some s \<Rightarrow> (t\<lparr> t_cdpSession := None \<rparr>, snd (disconnect h s w))
            | None \<Rightarrow> (t, w)) of
        (t1, w1) \<Rightarrow>
          (let t2 = (case t_document t1 of
                       Some d \<Rightarrow> (t1\<lparr> t_document := Some (Document_clearMarkers d) \<rparr>)\<lparr> t_document := None \<rparr>
                     | None \<Rightarrow> t1)
           in (t2\<lparr> t_isInitialized := False \<rparr>, w1)))"

section \<open>\<^verbatim>\<open>Browser\<close> (\<^verbatim>\<open>background/browser.ts\<close>)\<close>

text \<open>
  A JavaScript \<^verbatim>\<open>Map\<close> keeps its keys in insertion order, and \<^verbatim>\<open>removeTab\<close> reads the
  first value, so the map is a list of pairs with \<^verbatim>\<open>set\<close> replacing in place or
  appending. Window and tab identifiers are integers.
\<close>

fun map_set :: "int \<Rightarrow> 'v \<Rightarrow> (int \<times> 'v) list \<Rightarrow> (int \<times> 'v) list" where
  "map_set k v [] = [(k, v)]"
| "map_set k v ((k', v') # rest) = (if k' = k then (k, v) # rest else (k', v') # map_set k v rest)"

definition map_delete :: "int \<Rightarrow> (int \<times> 'v) list \<Rightarrow> (int \<times> 'v) list" where
  "map_delete k m = filter (\<lambda>kv. fst kv \<noteq> k) m"

record browser =
  b_windowId :: int
  b_tabs :: "(int \<times> tab) list"
  b_activeTabId :: "int option"

definition new_Browser :: "int \<Rightarrow> browser" where
  "new_Browser windowId = \<lparr> b_windowId = windowId, b_tabs = [], b_activeTabId = None \<rparr>"

definition createTab :: "int \<Rightarrow> string \<Rightarrow> browser \<Rightarrow> tab \<times> browser" where
  "createTab tabId url b =
     (let t = Tab_initialize (new_Tab tabId url)
      in (t, b\<lparr> b_tabs := map_set tabId t (b_tabs b) \<rparr>))"

definition getTab :: "browser \<Rightarrow> int \<Rightarrow> tab option" where
  "getTab b tabId = map_of (b_tabs b) tabId"

text \<open>\<^verbatim>\<open>if (!this.activeTabId) return null\<close>: \<^verbatim>\<open>null\<close> and \<^verbatim>\<open>0\<close> are both falsy.\<close>

definition getActiveTab :: "browser \<Rightarrow> tab option" where
  "getActiveTab b =
     (case b_activeTabId b of
        None \<Rightarrow> None
      | Some tabId \<Rightarrow> if tabId = 0 then None else map_of (b_tabs b) tabId)"

definition setActiveTab :: "int \<Rightarrow> browser \<Rightarrow> browser" where
  "setActiveTab tabId b = b\<lparr> b_activeTabId := Some tabId \<rparr>"

definition removeTab :: "host \<Rightarrow> int \<Rightarrow> browser \<Rightarrow> world \<Rightarrow> browser \<times> world" where
  "removeTab h tabId b w =
     (case (case map_of (b_tabs b) tabId of
              Some t \<Rightarrow> (map_delete tabId (b_tabs b), snd (Tab_destroy h t w))
            | None \<Rightarrow> (b_tabs b, w)) of
        (tabs1, w1) \<Rightarrow>
          (b\<lparr> b_tabs := tabs1,
              b_activeTabId :=
                (if b_activeTabId b = Some tabId then
                   (case tabs1 of [] \<Rightarrow> None | (k, firstTab) # rest \<Rightarrow> Some (t_tabId firstTab))
                 else b_activeTabId b) \<rparr>,
           w1))"

definition Browser_destroy :: "host \<Rightarrow> browser \<Rightarrow> world \<Rightarrow> browser \<times> world" where
  "Browser_destroy h b w =
     (b\<lparr> b_tabs := [], b_activeTabId := None \<rparr>,
      fold (\<lambda>kv w'. snd (Tab_destroy h (snd kv) w')) (b_tabs b) w)"

section \<open>\<^verbatim>\<open>ChromeController\<close> (\<^verbatim>\<open>background/chrome-controller.ts\<close>)\<close>

record chrome_controller =
  c_browsers :: "(int \<times> browser) list"
  c_activeWindowId :: "int option"

definition getActiveBrowser :: "chrome_controller \<Rightarrow> browser option" where
  "getActiveBrowser c =
     (case c_activeWindowId c of
        None \<Rightarrow> None
      | Some windowId \<Rightarrow> if windowId = 0 then None else map_of (c_browsers c) windowId)"

definition onWindowCreated :: "int \<Rightarrow> chrome_controller \<Rightarrow> chrome_controller" where
  "onWindowCreated windowId c = c\<lparr> c_browsers := map_set windowId (new_Browser windowId) (c_browsers c) \<rparr>"

text \<open>\<^verbatim>\<open>tab.url || ''\<close>\<close>

definition url_or_empty :: "string option \<Rightarrow> string" where
  "url_or_empty u = (case u of None \<Rightarrow> [] | Some s \<Rightarrow> s)"

text \<open>
  \<^verbatim>\<open>onTabActivated\<close>. The active tab is set first; a tab the browser does not know is
  then looked up at the host and created. When the lookup rejects, the handler rejects
  with the state as it is at that point.
\<close>

definition onTabActivated ::
  "host \<Rightarrow> int \<Rightarrow> int \<Rightarrow> chrome_controller \<Rightarrow> world \<Rightarrow> (err + unit) \<times> chrome_controller" where
  "onTabActivated h tabId windowId c w =
     (let c1 = c\<lparr> c_activeWindowId := Some windowId \<rparr>
      in case map_of (c_browsers c1) windowId of
           None \<Rightarrow> (Inr (), c1)
         | Some b \<Rightarrow>
             (let b1 = setActiveTab tabId b
              in if getTab b1 tabId = None then
                   (case tabs_get h (trace w) tabId of
                      Inl msg \<Rightarrow> (Inl (HostError msg), c1\<lparr> c_browsers := map_set windowId b1 (c_browsers c1) \<rparr>)
                    | Inr None \<Rightarrow> (Inr (), c1\<lparr> c_browsers := map_set windowId b1 (c_browsers c1) \<rparr>)
                    | Inr (Some info) \<Rightarrow>
                        (Inr (), c1\<lparr> c_browsers :=
                           map_set windowId (snd (createTab tabId (url_or_empty (ti_url info)) b1))
                             (c_browsers c1) \<rparr>))
                 else (Inr (), c1\<lparr> c_browsers := map_set windowId b1 (c_browsers c1) \<rparr>)))"



section \<open>\<^verbatim>\<open>AgentController\<close> (\<^verbatim>\<open>sidepanel/agent-controller.ts\<close>)\<close>

text \<open>\<^verbatim>\<open>Prediction\<close>: the oracle's reply (\<^verbatim>\<open>sidepanel/claude-api.ts\<close>).\<close>

record prediction =
  p_action :: string
  p_args :: "json list option"
  p_reasoning :: string

text \<open>
  \<^verbatim>\<open>convertPredictionToAction\<close>. The function has no \<^verbatim>\<open>throw\<close> of its own; it returns
  \<open>None\<close> where a \<^verbatim>\<open>String(...)\<close> it evaluates throws.
\<close>

definition convertPredictionToAction :: "builtins \<Rightarrow> prediction \<Rightarrow> ai_action option" where
  "convertPredictionToAction js p =
     (if p_action p = ''Click'' then
        (case p_args p of
           Some (arg0 # rest) \<Rightarrow>
             (case js_String js arg0 of
                None \<Rightarrow> None
              | Some s0 \<Rightarrow> Some ((action ''click'')\<lparr> a_elementId := Some (js_parseInt js s0) \<rparr>))
         | _ \<Rightarrow> Some (action ''done''))
      else if p_action p = ''Type'' then
        (case p_args p of
           Some (arg0 # arg1 # rest) \<Rightarrow>
             (case js_String js arg0 of
                None \<Rightarrow> None
              | Some s0 \<Rightarrow>
                  (case js_String js arg1 of
                     None \<Rightarrow> None
                   | Some s1 \<Rightarrow>
                       Some ((action ''type'')\<lparr> a_elementId := Some (js_parseInt js s0),
                                                 a_text := Some s1 \<rparr>)))
         | _ \<Rightarrow> Some (action ''done''))
      else if p_action p = ''Scroll'' then
        (case p_args p of
           Some (arg0 # arg1 # rest) \<Rightarrow>
             (case js_String js arg1 of
                None \<Rightarrow> None
              | Some s1 \<Rightarrow> Some ((action ''scroll'')\<lparr> a_direction := Some s1 \<rparr>))
         | _ \<Rightarrow> Some (action ''done''))
      else if p_action p = ''Wait'' then Some ((action ''wait'')\<lparr> a_duration := Some (Num 5000) \<rparr>)
      else if p_action p = ''GoBack'' then Some (action ''done'')
      else if p_action p = ''Navigate'' then
        Some ((action ''navigate'')\<lparr> a_url := Some
           (case p_args p of
              Some (arg0 # rest) \<Rightarrow> if truthy arg0 then arg0 else JStr []
            | _ \<Rightarrow> JStr []) \<rparr>)
      else if p_action p = ''ANSWER'' then Some (action ''done'')
      else if p_action p = ''retry'' then Some ((action ''wait'')\<lparr> a_duration := Some (Num 1000) \<rparr>)
      else Some (action ''done''))"

text \<open>
  The user-facing texts of the controller are Korean string literals. They are kept as
  parameters, one field per literal, named after what the literal says.
\<close>

record ui_text =
  txt_element :: string
  txt_click_suffix :: string
  txt_click :: string
  txt_type_middle :: string
  txt_type_suffix :: string
  txt_up :: string
  txt_down :: string
  txt_scroll_suffix :: string
  txt_wait_suffix :: string
  txt_navigate_suffix :: string
  txt_done :: string
  txt_unknown :: string
  txt_exec_failed :: string
  txt_exec_error :: string
  txt_no_elements :: string
  txt_answer_prefix :: string
  txt_cancelled_prefix :: string
  txt_cancelled_suffix :: string
  txt_nothing_done :: string
  txt_run_failed :: string

text \<open>Template interpolation of optional values: \<^verbatim>\<open>undefined\<close> prints as its name.\<close>

definition interp_str :: "string option \<Rightarrow> string" where
  "interp_str v = (case v of None \<Rightarrow> ''undefined'' | Some s \<Rightarrow> s)"

definition interp_json :: "builtins \<Rightarrow> json option \<Rightarrow> string option" where
  "interp_json js v = (case v of None \<Rightarrow> Some ''undefined'' | Some j \<Rightarrow> js_String js j)"

text \<open>
  \<^verbatim>\<open>getActionDescription\<close>; \<open>None\<close> where the interpolation of \<^verbatim>\<open>action.url\<close> throws.
\<close>

definition getActionDescription :: "builtins \<Rightarrow> ui_text \<Rightarrow> ai_action \<Rightarrow> string option" where
  "getActionDescription js txt a =
     (if a_type a = ''click'' then
        Some (if truthy_opt_num (a_elementId a)
              then txt_element txt @ js_numToString js (the (a_elementId a)) @ txt_click_suffix txt
              else txt_click txt)
      else if a_type a = ''type'' then
        Some (if truthy_opt_num (a_elementId a)
              then txt_element txt @ js_numToString js (the (a_elementId a)) @ txt_type_middle txt
                   @ interp_str (a_text a) @ txt_type_suffix txt
              else [CHR 0x22] @ interp_str (a_text a) @ txt_type_suffix txt)
      else if a_type a = ''scroll'' then
        Some ((if a_direction a = Some ''up'' then txt_up txt else txt_down txt) @ txt_scroll_suffix txt)
      else if a_type a = ''wait'' then
        Some (js_numToString js (num_or (a_duration a) (Num 2000)) @ txt_wait_suffix txt)
      else if a_type a = ''navigate'' then
        (case interp_json js (a_url a) of
           None \<Rightarrow> None
         | Some u \<Rightarrow> Some (u @ txt_navigate_suffix txt))
      else if a_type a = ''done'' then Some (txt_done txt)
      else Some (txt_unknown txt))"

text \<open>
  What \<^verbatim>\<open>chrome.runtime.sendMessage\<close> gives back for \<^verbatim>\<open>EXECUTE_ACTION\<close>: the call
  rejects (with an \<^verbatim>\<open>Error\<close> message, or with something else), or resolves to nothing, or
  to \<^verbatim>\<open>{success, error}\<close>. The whole body of the controller's \<^verbatim>\<open>executeAction\<close> is inside
  a \<^verbatim>\<open>try\<close>, so a throwing description ends in its \<^verbatim>\<open>catch\<close> as well.
\<close>

datatype bg_response =
    Rejected "string option"
  | NoResponse
  | Response bool "string option"

definition str_or :: "string option \<Rightarrow> string \<Rightarrow> string" where
  "str_or v d = (case v of None \<Rightarrow> d | Some s \<Rightarrow> if s \<noteq> [] then s else d)"

definition Agent_executeAction :: "builtins \<Rightarrow> ui_text \<Rightarrow> bg_response \<Rightarrow> ai_action \<Rightarrow> action_result" where
  "Agent_executeAction js txt response a =
     (case response of
        Rejected m \<Rightarrow>
          \<lparr> success = False, message = txt_exec_error txt @ a_type a,
            error = Some (case m of Some msg \<Rightarrow> msg | None \<Rightarrow> ''Unknown error''), reasoning = None \<rparr>
      | NoResponse \<Rightarrow>
          \<lparr> success = False, message = txt_exec_failed txt @ a_type a,
            error = Some ''No response from background script'', reasoning = None \<rparr>
      | Response ok e \<Rightarrow>
          if \<not> ok then
            \<lparr> success = False, message = txt_exec_failed txt @ a_type a,
              error = Some (str_or e ''Unknown error''), reasoning = None \<rparr>
          else
            (case getActionDescription js txt a of
               Some description \<Rightarrow>
                 \<lparr> success = True, message = description, error = None, reasoning = None \<rparr>
             | None \<Rightarrow>
                 \<lparr> success = False, message = txt_exec_error txt @ a_type a,
                   error = Some type_error_message, reasoning = None \<rparr>))"

record agent_controller =
  currentStep :: nat
  scratchpad :: string
  isRunning :: bool
  shouldStop :: bool

text \<open>\<^verbatim>\<open>private maxSteps = 10\<close>; nothing assigns it again.\<close>

definition maxSteps :: nat where
  "maxSteps = 10"

definition new_AgentController :: agent_controller where
  "new_AgentController = \<lparr> currentStep = 0, scratchpad = [], isRunning = False, shouldStop = False \<rparr>"

definition stop :: "agent_controller \<Rightarrow> agent_controller" where
  "stop c = (if isRunning c then c\<lparr> shouldStop := True \<rparr> else c)"

text \<open>Decimal digits of a step number, as \<^verbatim>\<open>${stepNumber}\<close> prints them.\<close>

fun show_nat :: "nat \<Rightarrow> string" where
  "show_nat n =
     (if n < 10 then [''0123456789'' ! n]
      else show_nat (n div 10) @ [''0123456789'' ! (n mod 10)])"

definition updateScratchpad :: "action_result \<Rightarrow> agent_controller \<Rightarrow> agent_controller" where
  "updateScratchpad result c =
     (let stepNumber = currentStep c;
          c1 = (if scratchpad c = []
                then c\<lparr> scratchpad := ''Previous action observations:'' @ [CHR 0x0A] \<rparr>
                else c)
      in c1\<lparr> scratchpad := scratchpad c1 @ [CHR 0x0A] @ show_nat stepNumber @ ''. '' @ message result \<rparr>)"

text \<open>
  The surroundings of one cycle of the loop: what the helpers \<^verbatim>\<open>captureScreen\<close> and
  \<^verbatim>\<open>markElements\<close> return or throw (\<open>Inl\<close> carries the thrown message), what the oracle
  answers to the arguments it is called with (the last of them is the scratchpad), what
  the background answers to \<^verbatim>\<open>EXECUTE_ACTION\<close>, and whether the caller invokes
  \<^verbatim>\<open>stop()\<close> while the cycle is suspended in one of its awaits.
\<close>

record cycle_env =
  ev_captureScreen :: "string + screenshot_data"
  ev_markElements :: "string + marked_element list"
  ev_analyzePage :: "screenshot_data \<Rightarrow> marked_element list \<Rightarrow> string \<Rightarrow> string \<Rightarrow> string + prediction"
  ev_executeAction :: "ai_action \<Rightarrow> marked_element list \<Rightarrow> bg_response"
  ev_stop :: bool

text \<open>
  The surroundings of a run: those of its cycles, by step number, whether \<^verbatim>\<open>stop()\<close>
  arrives during the marker clearing that follows the loop, and whether the caller
  passed the optional \<^verbatim>\<open>onProgress\<close> callback. The callback only observes; what matters
  here is that its argument is evaluated only when it is there.
\<close>

record run_env =
  cycle :: "nat \<Rightarrow> cycle_env"
  stop_in_cleanup :: bool
  with_progress :: bool

datatype cycle_outcome =
    Threw string
  | Break action_result
  | Next action_result bool

text \<open>
  The body of the \<^verbatim>\<open>while\<close> loop after \<^verbatim>\<open>this.currentStep++\<close>. \<open>Next r go\<close> is a cycle
  that ran to its end with step \<open>r\<close> recorded and \<^verbatim>\<open>continueExecution = go\<close>.
\<close>

definition run_cycle ::
  "builtins \<Rightarrow> ui_text \<Rightarrow> bool \<Rightarrow> cycle_env \<Rightarrow> string \<Rightarrow> agent_controller \<Rightarrow> cycle_outcome" where
  "run_cycle js txt progress ev initialQuery c =
     (case ev_captureScreen ev of
        Inl e \<Rightarrow> Threw e
      | Inr screenshot \<Rightarrow>
          (case ev_markElements ev of
             Inl e \<Rightarrow> Threw e
           | Inr elements \<Rightarrow>
               if length elements = 0 then
                 Break \<lparr> success = False, message = txt_no_elements txt,
                         error = Some ''No clickable elements found'', reasoning = None \<rparr>
               else
                 (case ev_analyzePage ev screenshot elements initialQuery (scratchpad c) of
                    Inl e \<Rightarrow> Threw e
                  | Inr p \<Rightarrow>
                      (case convertPredictionToAction js p of
                         None \<Rightarrow> Threw type_error_message
                       | Some aiAction \<Rightarrow>
                           if p_action p = ''ANSWER'' then
                             Break \<lparr> success = True, message = txt_answer_prefix txt @ p_reasoning p,
                                     error = None, reasoning = Some (p_reasoning p) \<rparr>
                           else if progress \<and> getActionDescription js txt aiAction = None then
                             Threw type_error_message
                           else
                             Next ((Agent_executeAction js txt (ev_executeAction ev aiAction elements) aiAction)
                                     \<lparr> reasoning := Some (p_reasoning p) \<rparr>)
                                  (a_type aiAction \<noteq> ''done'')))))"

text \<open>
  The \<^verbatim>\<open>while\<close> loop. It returns the thrown message, if a cycle threw, the controller and
  the steps recorded.
\<close>

function agent_loop ::
  "builtins \<Rightarrow> ui_text \<Rightarrow> run_env \<Rightarrow> string \<Rightarrow> agent_controller \<Rightarrow> action_result list \<Rightarrow> bool
     \<Rightarrow> string option \<times> agent_controller \<times> action_result list" where
  "agent_loop js txt env initialQuery c steps continueExecution =
     (if continueExecution \<and> currentStep c < maxSteps \<and> \<not> shouldStop c then
        (let c1 = c\<lparr> currentStep := currentStep c + 1 \<rparr>;
             ev = cycle env (currentStep c1);
             c2 = (if ev_stop ev then stop c1 else c1)
         in case run_cycle js txt (with_progress env) ev initialQuery c1 of
              Threw e \<Rightarrow> (Some e, c2, steps)
            | Break r \<Rightarrow> (None, c2, steps @ [r])
            | Next r go \<Rightarrow>
                agent_loop js txt env initialQuery (updateScratchpad r c2) (steps @ [r]) go)
      else (None, c, steps))"
  by pat_completeness auto
termination
  by (relation "measure (\<lambda>(js, txt, env, q, c, steps, go). maxSteps - currentStep c)")
     (auto simp: updateScratchpad_def stop_def Let_def)

record agent_result =
  ar_success :: bool
  ar_summary :: string
  ar_error :: "string option"
  ar_steps :: "action_result list"

text \<open>\<^verbatim>\<open>steps.map((s, i) => `${i + 1}. ${s.message}`).join('\n')\<close>\<close>

definition summary_lines :: "action_result list \<Rightarrow> string" where
  "summary_lines steps =
     join [CHR 0x0A] (map (\<lambda>(i, s). show_nat (i + 1) @ ''. '' @ message s) (enumerate 0 steps))"

text \<open>The \<^verbatim>\<open>finally\<close> block.\<close>

definition run_finally :: "agent_controller \<Rightarrow> agent_controller" where
  "run_finally c = c\<lparr> isRunning := False, shouldStop := False \<rparr>"

text \<open>The assignments \<^verbatim>\<open>runAgent\<close> makes before its loop.\<close>

definition run_start :: "agent_controller \<Rightarrow> agent_controller" where
  "run_start c = c\<lparr> currentStep := 0, isRunning := True, shouldStop := False \<rparr>"

definition runAgent ::
  "builtins \<Rightarrow> ui_text \<Rightarrow> run_env \<Rightarrow> string \<Rightarrow> agent_controller \<Rightarrow> agent_result \<times> agent_controller" where
  "runAgent js txt env initialQuery c =
     (case agent_loop js txt env initialQuery (run_start c) [] True of
        (Some e, c1, steps) \<Rightarrow>
          (\<lparr> ar_success = False, ar_summary = txt_run_failed txt, ar_error = Some e,
             ar_steps = steps \<rparr>,
           run_finally c1)
      | (None, c1, steps) \<Rightarrow>
          (let c2 = (if stop_in_cleanup env then stop c1 else c1)
           in if shouldStop c2 then
                (\<lparr> ar_success = False,
                   ar_summary = txt_cancelled_prefix txt @ show_nat (currentStep c2) @ txt_cancelled_suffix txt,
                   ar_error = Some ''User cancelled'', ar_steps = steps \<rparr>,
                 run_finally c2)
              else
                (\<lparr> ar_success = (filter success steps \<noteq> []),
                   ar_summary = (if length steps > 0 then summary_lines steps else txt_nothing_done txt),
                   ar_error = (case List.find (\<lambda>s. \<not> success s) steps of
                                 None \<Rightarrow> None
                               | Some s \<Rightarrow> error s),
                   ar_steps = steps \<rparr>,
                 run_finally c2)))"

section \<open>Properties of the state\<close>

text \<open>
  The specification's invariant of a browser context: \<^verbatim>\<open>activeTabId\<close>, if non-null, is a
  key of \<^verbatim>\<open>tabs\<close>.
\<close>

definition active_is_key :: "browser \<Rightarrow> bool" where
  "active_is_key b = (case b_activeTabId b of None \<Rightarrow> True | Some tabId \<Rightarrow> getTab b tabId \<noteq> None)"

text \<open>Every tab is stored under its own identifier, as \<^verbatim>\<open>createTab\<close> stores it.\<close>

definition keys_match :: "browser \<Rightarrow> bool" where
  "keys_match b = list_all (\<lambda>kv. t_tabId (snd kv) = fst kv) (b_tabs b)"

definition browsers_ok :: "chrome_controller \<Rightarrow> bool" where
  "browsers_ok c = list_all (\<lambda>kv. active_is_key (snd kv) \<and> keys_match (snd kv)) (c_browsers c)"


section \<open>Sample inputs\<close>

text \<open>Concrete hosts, elements and actions at which the results below are evaluated.\<close>

definition accepting_host :: host where
  "accepting_host =
     \<lparr> tabs_get = (\<lambda>tr tabId. Inr (Some \<lparr> ti_url = Some ''https://example.com/'' \<rparr>)),
       debugger_attach = (\<lambda>tr tabId. None),
       debugger_detach = (\<lambda>tr tabId. None),
       debugger_send = (\<lambda>tr tabId method params. Inr (JObj [])) \<rparr>"

definition box :: "rat \<Rightarrow> rat \<Rightarrow> rat \<Rightarrow> rat \<Rightarrow> dom_rect" where
  "box l t w' h' = \<lparr> r_x = l, r_y = t, r_width = w', r_height = h', r_left = l, r_top = t,
                    r_right = l + w', r_bottom = t + h' \<rparr>"

definition sample_element :: "rat \<Rightarrow> dom_rect \<Rightarrow> marked_element" where
  "sample_element i r = \<lparr> el_id = i, el_tagName = ''button'', el_text = ''OK'', el_rect = r,
                          el_attributes = None, el_scrollable = None \<rparr>"

definition world0 :: world where
  "world0 = \<lparr> trace = [], next_sid = 1 \<rparr>"

definition session0 :: "bool \<Rightarrow> cdp_session" where
  "session0 c = \<lparr> sid = 0, s_tabId = 7, connected = c \<rparr>"

definition click_2 :: ai_action where
  "click_2 = (action ''click'')\<lparr> a_elementId := Some (Num 2) \<rparr>"

definition type_into :: "rat \<Rightarrow> string \<Rightarrow> ai_action" where
  "type_into i s = (action ''type'')\<lparr> a_elementId := Some (Num i), a_text := Some s \<rparr>"

definition scroll_in :: "rat \<Rightarrow> string option \<Rightarrow> ai_action" where
  "scroll_in i d = (action ''scroll'')\<lparr> a_elementId := Some (Num i), a_direction := d \<rparr>"

definition navigate_to :: "string \<Rightarrow> ai_action" where
  "navigate_to u = (action ''navigate'')\<lparr> a_url := Some (JStr u) \<rparr>"

text \<open>
  Stand-ins for the two built-ins: they are right on what the samples feed them (a
  string without digits parses to NaN, a natural number prints in decimal).
\<close>

definition plain_builtins :: builtins where
  "plain_builtins =
     \<lparr> js_parseInt = (\<lambda>s. NaN),
       js_numToString = (\<lambda>n. case n of Num r \<Rightarrow> show_nat (nat \<lfloor>r\<rfloor>) | NaN \<Rightarrow> ''NaN''
                                | PosInf \<Rightarrow> ''Infinity'' | NegInf \<Rightarrow> ''-Infinity'') \<rparr>"

definition predict :: "string \<Rightarrow> json list option \<Rightarrow> prediction" where
  "predict tag args = \<lparr> p_action = tag, p_args = args, p_reasoning = ''because'' \<rparr>"

definition english_text :: ui_text where
  "english_text =
     \<lparr> txt_element = ''element '', txt_click_suffix = '' click'', txt_click = ''click'',
       txt_type_middle = '' type '', txt_type_suffix = '' typed'', txt_up = ''up'',
       txt_down = ''down'', txt_scroll_suffix = '' scroll'', txt_wait_suffix = ''ms wait'',
       txt_navigate_suffix = '' visited'', txt_done = ''done'', txt_unknown = ''unknown'',
       txt_exec_failed = ''action failed: '', txt_exec_error = ''action error: '',
       txt_no_elements = ''no clickable elements'', txt_answer_prefix = ''answer: '',
       txt_cancelled_prefix = ''stopped by the user (at step '', txt_cancelled_suffix = '')'',
       txt_nothing_done = ''nothing was done'', txt_run_failed = ''the run failed'' \<rparr>"

definition no_screenshot :: screenshot_data where
  "no_screenshot = \<lparr> sd_data = Some (JStr ''png''), sd_width = None, sd_height = None \<rparr>"

text \<open>A cycle in which everything works and the oracle's reply is a function of the scratchpad.\<close>

definition cycle_with :: "(string \<Rightarrow> prediction) \<Rightarrow> bool \<Rightarrow> cycle_env" where
  "cycle_with oracle stopped =
     \<lparr> ev_captureScreen = Inr no_screenshot,
       ev_markElements = Inr [sample_element 0 (box 0 0 8 8)],
       ev_analyzePage = (\<lambda>shot els query pad. Inr (oracle pad)),
       ev_executeAction = (\<lambda>a els. Response True None),
       ev_stop = stopped \<rparr>"

definition always_wait :: "nat option \<Rightarrow> run_env" where
  "always_wait stop_in = \<lparr> cycle = (\<lambda>k. cycle_with (\<lambda>pad. predict ''Wait'' None) (stop_in = Some k)),
                           stop_in_cleanup = False, with_progress = True \<rparr>"

definition wait_then_answer :: run_env where
  "wait_then_answer =
     \<lparr> cycle = (\<lambda>k. cycle_with (\<lambda>pad. predict (if k = 1 then ''Wait'' else ''ANSWER'') None) False),
       stop_in_cleanup = False, with_progress = True \<rparr>"

definition echo_scratchpad :: run_env where
  "echo_scratchpad =
     \<lparr> cycle = (\<lambda>k. cycle_with (\<lambda>pad. \<lparr> p_action = ''ANSWER'', p_args = None, p_reasoning = pad \<rparr>) False),
       stop_in_cleanup = False, with_progress = True \<rparr>"

definition browser_of :: "int \<Rightarrow> int list \<Rightarrow> int option \<Rightarrow> browser" where
  "browser_of windowId tabIds active =
     \<lparr> b_windowId = windowId,
       b_tabs = map (\<lambda>i. (i, Tab_initialize (new_Tab i ''https://example.com/''))) tabIds,
       b_activeTabId = active \<rparr>"

definition controller_of :: "browser list \<Rightarrow> int option \<Rightarrow> chrome_controller" where
  "controller_of bs active = \<lparr> c_browsers = map (\<lambda>b. (b_windowId b, b)) bs, c_activeWindowId = active \<rparr>"

definition no_tab_host :: host where
  "no_tab_host = accepting_host\<lparr> tabs_get := (\<lambda>tr tabId. Inr None) \<rparr>"

definition rejecting_host :: host where
  "rejecting_host = accepting_host\<lparr> tabs_get := (\<lambda>tr tabId. Inl ''No tab with id'') \<rparr>"





declare agent_loop.simps [simp del]

declare show_nat.simps [simp del]

section \<open>The protocol session\<close>

lemmas io_defs = io_return_def io_throw_def io_bind_def io_then_def io_catch_def emit_def
  wait_def sendCommand_def

lemma simulateClick_accepted:
  assumes "connected s"
    and "\<forall>tr p. \<not> isl (debugger_send h tr (s_tabId s) ''Input.dispatchMouseEvent'' p)"
  shows "simulateClick h s x y w =
     (Inr (), w\<lparr> trace := trace w @
        [Send (s_tabId s) ''Input.dispatchMouseEvent'' (Some (mouse_event ''mouseMoved'' x y ''none'' 0)),
         Send (s_tabId s) ''Input.dispatchMouseEvent'' (Some (mouse_event ''mousePressed'' x y ''left'' 1)),
         Sleep (Num 50),
         Send (s_tabId s) ''Input.dispatchMouseEvent'' (Some (mouse_event ''mouseReleased'' x y ''left'' 1))] \<rparr>)"
proof -
  have sc: "sendCommand h s ''Input.dispatchMouseEvent'' p w' =
      (Inr (projr (debugger_send h (trace w') (s_tabId s) ''Input.dispatchMouseEvent'' p)),
       emit (Send (s_tabId s) ''Input.dispatchMouseEvent'' p) w')" for p w'
  proof -
    from assms(2) have "\<not> isl (debugger_send h (trace w') (s_tabId s) ''Input.dispatchMouseEvent'' p)"
      by blast
    then show ?thesis
      by (cases "debugger_send h (trace w') (s_tabId s) ''Input.dispatchMouseEvent'' p")
        (simp_all add: sendCommand_def)
  qed
  show ?thesis
    using assms(1)
    by (simp add: simulateClick_def io_then_def io_bind_def io_catch_def io_return_def
        wait_def sc emit_def)
qed

text \<open>Double arithmetic on the sample boxes.\<close>

lemma quotient_of_half: "quotient_of (1 / 2) = (1, 2)"
proof -
  have "quotient_of (Fract 1 2) = (1, 2)" by (simp add: quotient_of_Fract)
  moreover have "Fract 1 2 = (1 / 2 :: rat)" by (simp add: Fract_of_int_quotient)
  ultimately show ?thesis by (simp only:)
qed

lemma to_double_samples:
  "to_double 10 = Num 10" "to_double 20 = Num 20" "to_double 100 = Num 100" "to_double 30 = Num 30"
  "to_double 50 = Num 50" "to_double 60 = Num 60" "to_double 15 = Num 15" "to_double 35 = Num 35"
  "to_double 0 = Num 0" "to_double 1 = Num 1" "to_double (1 / 2) = Num (1 / 2)"
  by (simp_all add: to_double_def expo_def quotient_of_half pow2_def round_half_even_def Let_def)

lemma center_samples:
  "center_x (sample_element 2 (box 10 20 100 30)) = Num 60"
  "center_y (sample_element 2 (box 10 20 100 30)) = Num 35"
  "center_x (sample_element 2 (box 0 0 1 1)) = Num (1 / 2)"
  "center_y (sample_element 2 (box 0 0 1 1)) = Num (1 / 2)"
  by (simp_all add: center_x_def center_y_def sample_element_def box_def to_double_samples)

text \<open>
  C1 (as amended). A Click action whose \<^verbatim>\<open>elementId\<close> names an element of the supplied
  snapshot, run on a connected session whose host accepts the mouse commands, sends
  mouse-moved, mouse-pressed, a 50 ms wait and mouse-released, and nothing else, all
  three at the point \<open>(Math.round(cx), Math.round(cy))\<close>, where \<open>cx = left + width / 2\<close> and
  \<open>cy = top + height / 2\<close> are computed in double arithmetic on the box of the first
  snapshot element with that id. The rounding leaves a coordinate as it is whenever the
  computed value is an integer. For the box \<^verbatim>\<open>{left:10, top:20, width:100, height:30}\<close> the
  point is \<open>(60, 35)\<close>.
\<close>

theorem click_element_dispatch:
  assumes "a_type a = ''click''"
    and "a_elementId a = Some elementId"
    and "find_element els elementId = Some element"
    and "connected s"
    and "\<forall>tr p. \<not> isl (debugger_send h tr (s_tabId s) ''Input.dispatchMouseEvent'' p)"
  shows "executeAction h s a (Some els) w =
     (Inr (), w\<lparr> trace := trace w @
        [Send (s_tabId s) ''Input.dispatchMouseEvent''
           (Some (JObj [(''type'', JStr ''mouseMoved''),
                        (''x'', JNum (Math_round (center_x element))),
                        (''y'', JNum (Math_round (center_y element))),
                        (''button'', JStr ''none''), (''clickCount'', JNum (Num 0))])),
         Send (s_tabId s) ''Input.dispatchMouseEvent''
           (Some (JObj [(''type'', JStr ''mousePressed''),
                        (''x'', JNum (Math_round (center_x element))),
                        (''y'', JNum (Math_round (center_y element))),
                        (''button'', JStr ''left''), (''clickCount'', JNum (Num 1))])),
         Sleep (Num 50),
         Send (s_tabId s) ''Input.dispatchMouseEvent''
           (Some (JObj [(''type'', JStr ''mouseReleased''),
                        (''x'', JNum (Math_round (center_x element))),
                        (''y'', JNum (Math_round (center_y element))),
                        (''button'', JStr ''left''), (''clickCount'', JNum (Num 1))]))] \<rparr>)
    \<and> center_x element =
        js_add (to_double (r_left (el_rect element))) (js_half (to_double (r_width (el_rect element))))
    \<and> center_y element =
        js_add (to_double (r_top (el_rect element))) (js_half (to_double (r_height (el_rect element))))
    \<and> (\<forall>r. center_x element = Num r \<and> r \<in> \<int> \<longrightarrow> Math_round (center_x element) = Num r)
    \<and> (\<forall>r. center_y element = Num r \<and> r \<in> \<int> \<longrightarrow> Math_round (center_y element) = Num r)
    \<and> (r_left (el_rect element) = 10 \<and> r_top (el_rect element) = 20
         \<and> r_width (el_rect element) = 100 \<and> r_height (el_rect element) = 30 \<longrightarrow>
           Math_round (center_x element) = Num 60 \<and> Math_round (center_y element) = Num 35)"
proof -
  have run: "executeAction h s a (Some els) w =
      simulateClick h s (center_x element) (center_y element) w"
    using assms(1-3) by (simp add: executeAction_def executeAction_click_def)
  have half: "(of_int \<lfloor>r + 1 / 2\<rfloor> :: rat) = r" if "r \<in> \<int>" for r :: rat
  proof -
    from that obtain k :: int where "r = of_int k" by (auto elim: Ints_cases)
    then show ?thesis by (simp add: floor_eq_iff)
  qed
  have events: "executeAction h s a (Some els) w =
     (Inr (), w\<lparr> trace := trace w @
        [Send (s_tabId s) ''Input.dispatchMouseEvent''
           (Some (JObj [(''type'', JStr ''mouseMoved''),
                        (''x'', JNum (Math_round (center_x element))),
                        (''y'', JNum (Math_round (center_y element))),
                        (''button'', JStr ''none''), (''clickCount'', JNum (Num 0))])),
         Send (s_tabId s) ''Input.dispatchMouseEvent''
           (Some (JObj [(''type'', JStr ''mousePressed''),
                        (''x'', JNum (Math_round (center_x element))),
                        (''y'', JNum (Math_round (center_y element))),
                        (''button'', JStr ''left''), (''clickCount'', JNum (Num 1))])),
         Sleep (Num 50),
         Send (s_tabId s) ''Input.dispatchMouseEvent''
           (Some (JObj [(''type'', JStr ''mouseReleased''),
                        (''x'', JNum (Math_round (center_x element))),
                        (''y'', JNum (Math_round (center_y element))),
                        (''button'', JStr ''left''), (''clickCount'', JNum (Num 1))]))] \<rparr>)"
    unfolding run simulateClick_accepted [OF assms(4,5)] mouse_event_def by simp
  have ints: "Math_round v = Num r" if "v = Num r" "r \<in> \<int>" for v r
    using that half by simp
  have sample: "Math_round (center_x element) = Num 60 \<and> Math_round (center_y element) = Num 35"
    if "r_left (el_rect element) = 10 \<and> r_top (el_rect element) = 20
         \<and> r_width (el_rect element) = 100 \<and> r_height (el_rect element) = 30"
  proof -
    from that have "center_x element = Num 60" "center_y element = Num 35"
      by (simp_all add: center_x_def center_y_def to_double_samples)
    moreover have "(60 :: rat) \<in> \<int>" "(35 :: rat) \<in> \<int>" by simp_all
    ultimately show ?thesis using ints by blast
  qed
  have dx: "center_x element =
      js_add (to_double (r_left (el_rect element))) (js_half (to_double (r_width (el_rect element))))"
    by (simp only: center_x_def)
  have dy: "center_y element =
      js_add (to_double (r_top (el_rect element))) (js_half (to_double (r_height (el_rect element))))"
    by (simp only: center_y_def)
  have ix: "\<forall>r. center_x element = Num r \<and> r \<in> \<int> \<longrightarrow> Math_round (center_x element) = Num r"
    using ints by blast
  have iy: "\<forall>r. center_y element = Num r \<and> r \<in> \<int> \<longrightarrow> Math_round (center_y element) = Num r"
    using ints by blast
  have sm: "r_left (el_rect element) = 10 \<and> r_top (el_rect element) = 20
         \<and> r_width (el_rect element) = 100 \<and> r_height (el_rect element) = 30 \<longrightarrow>
           Math_round (center_x element) = Num 60 \<and> Math_round (center_y element) = Num 35"
    using sample by blast
  show ?thesis
    by (rule conjI [OF events conjI [OF dx conjI [OF dy conjI [OF ix conjI [OF iy sm]]]]])
qed

text \<open>
  The scenario of the specification: element 2 with box
  \<^verbatim>\<open>{left:10, top:20, width:100, height:30}\<close> is clicked at \<open>(60, 35)\<close>.
\<close>

theorem click_element_dispatch_witness:
  "find_element [sample_element 2 (box 10 20 100 30)] (Num 2) = Some (sample_element 2 (box 10 20 100 30))
   \<and> connected (session0 True)
   \<and> executeAction accepting_host (session0 True) click_2 (Some [sample_element 2 (box 10 20 100 30)]) world0 =
     (Inr (), world0\<lparr> trace :=
        [Send 7 ''Input.dispatchMouseEvent''
           (Some (JObj [(''type'', JStr ''mouseMoved''), (''x'', JNum (Num 60)), (''y'', JNum (Num 35)),
                        (''button'', JStr ''none''), (''clickCount'', JNum (Num 0))])),
         Send 7 ''Input.dispatchMouseEvent''
           (Some (JObj [(''type'', JStr ''mousePressed''), (''x'', JNum (Num 60)), (''y'', JNum (Num 35)),
                        (''button'', JStr ''left''), (''clickCount'', JNum (Num 1))])),
         Sleep (Num 50),
         Send 7 ''Input.dispatchMouseEvent''
           (Some (JObj [(''type'', JStr ''mouseReleased''), (''x'', JNum (Num 60)), (''y'', JNum (Num 35)),
                        (''button'', JStr ''left''), (''clickCount'', JNum (Num 1))]))] \<rparr>)"
proof -
  have f: "find_element [sample_element 2 (box 10 20 100 30)] (Num 2) = Some (sample_element 2 (box 10 20 100 30))"
    by (simp add: find_element_def sample_element_def)
  have c: "connected (session0 True)" by (simp add: session0_def)
  have t: "a_type click_2 = ''click''" "a_elementId click_2 = Some (Num 2)"
    by (simp_all add: click_2_def action_def)
  have a: "\<forall>tr p. \<not> isl (debugger_send accepting_host tr (s_tabId (session0 True)) ''Input.dispatchMouseEvent'' p)"
    by (simp add: accepting_host_def)
  have b: "r_left (el_rect (sample_element 2 (box 10 20 100 30))) = 10"
    "r_top (el_rect (sample_element 2 (box 10 20 100 30))) = 20"
    "r_width (el_rect (sample_element 2 (box 10 20 100 30))) = 100"
    "r_height (el_rect (sample_element 2 (box 10 20 100 30))) = 30"
    by (simp_all add: sample_element_def box_def)
  note inst = click_element_dispatch [OF t f c a, of world0]
  from inst b have p: "Math_round (center_x (sample_element 2 (box 10 20 100 30))) = Num 60"
    "Math_round (center_y (sample_element 2 (box 10 20 100 30))) = Num 35"
    by blast+
  from inst have "executeAction accepting_host (session0 True) click_2
       (Some [sample_element 2 (box 10 20 100 30)]) world0 =
     (Inr (), world0\<lparr> trace := trace world0 @
        [Send (s_tabId (session0 True)) ''Input.dispatchMouseEvent''
           (Some (JObj [(''type'', JStr ''mouseMoved''),
                        (''x'', JNum (Math_round (center_x (sample_element 2 (box 10 20 100 30))))),
                        (''y'', JNum (Math_round (center_y (sample_element 2 (box 10 20 100 30))))),
                        (''button'', JStr ''none''), (''clickCount'', JNum (Num 0))])),
         Send (s_tabId (session0 True)) ''Input.dispatchMouseEvent''
           (Some (JObj [(''type'', JStr ''mousePressed''),
                        (''x'', JNum (Math_round (center_x (sample_element 2 (box 10 20 100 30))))),
                        (''y'', JNum (Math_round (center_y (sample_element 2 (box 10 20 100 30))))),
                        (''button'', JStr ''left''), (''clickCount'', JNum (Num 1))])),
         Sleep (Num 50),
         Send (s_tabId (session0 True)) ''Input.dispatchMouseEvent''
           (Some (JObj [(''type'', JStr ''mouseReleased''),
                        (''x'', JNum (Math_round (center_x (sample_element 2 (box 10 20 100 30))))),
                        (''y'', JNum (Math_round (center_y (sample_element 2 (box 10 20 100 30))))),
                        (''button'', JStr ''left''), (''clickCount'', JNum (Num 1))]))] \<rparr>)"
    by (rule conjunct1)
  with p f c show ?thesis
    by (simp add: session0_def world0_def)
qed

text \<open>
  Where the statement without these conditions fails: on a session that is not
  connected nothing is dispatched, and for a box whose centre is \<open>(1/2, 1/2)\<close> the
  events go to \<open>(1, 1)\<close>.
\<close>

theorem click_not_at_center_counterexample:
  "executeAction accepting_host (session0 False) click_2 (Some [sample_element 2 (box 10 20 100 30)]) world0 =
     (Inl NotConnected, world0)
   \<and> center_x (sample_element 2 (box 0 0 1 1)) = Num (1 / 2)
   \<and> center_y (sample_element 2 (box 0 0 1 1)) = Num (1 / 2)
   \<and> executeAction accepting_host (session0 True) click_2 (Some [sample_element 2 (box 0 0 1 1)]) world0 =
     (Inr (), world0\<lparr> trace :=
        [Send 7 ''Input.dispatchMouseEvent''
           (Some (JObj [(''type'', JStr ''mouseMoved''), (''x'', JNum (Num 1)), (''y'', JNum (Num 1)),
                        (''button'', JStr ''none''), (''clickCount'', JNum (Num 0))])),
         Send 7 ''Input.dispatchMouseEvent''
           (Some (JObj [(''type'', JStr ''mousePressed''), (''x'', JNum (Num 1)), (''y'', JNum (Num 1)),
                        (''button'', JStr ''left''), (''clickCount'', JNum (Num 1))])),
         Sleep (Num 50),
         Send 7 ''Input.dispatchMouseEvent''
           (Some (JObj [(''type'', JStr ''mouseReleased''), (''x'', JNum (Num 1)), (''y'', JNum (Num 1)),
                        (''button'', JStr ''left''), (''clickCount'', JNum (Num 1))]))] \<rparr>)"
proof -
  have off: "executeAction accepting_host (session0 False) click_2
       (Some [sample_element 2 (box 10 20 100 30)]) world0 = (Inl NotConnected, world0)"
    by (simp add: executeAction_def executeAction_click_def click_2_def action_def find_element_def
        sample_element_def session0_def simulateClick_def io_throw_def)
  have on: "executeAction accepting_host (session0 True) click_2 (Some [sample_element 2 (box 0 0 1 1)]) world0 =
      simulateClick accepting_host (session0 True) (Num (1 / 2)) (Num (1 / 2)) world0"
    using center_samples(3,4)
    by (simp add: executeAction_def executeAction_click_def click_2_def action_def find_element_def
        sample_element_def)
  have "simulateClick accepting_host (session0 True) (Num (1 / 2)) (Num (1 / 2)) world0 =
     (Inr (), world0\<lparr> trace :=
        [Send 7 ''Input.dispatchMouseEvent''
           (Some (JObj [(''type'', JStr ''mouseMoved''), (''x'', JNum (Num 1)), (''y'', JNum (Num 1)),
                        (''button'', JStr ''none''), (''clickCount'', JNum (Num 0))])),
         Send 7 ''Input.dispatchMouseEvent''
           (Some (JObj [(''type'', JStr ''mousePressed''), (''x'', JNum (Num 1)), (''y'', JNum (Num 1)),
                        (''button'', JStr ''left''), (''clickCount'', JNum (Num 1))])),
         Sleep (Num 50),
         Send 7 ''Input.dispatchMouseEvent''
           (Some (JObj [(''type'', JStr ''mouseReleased''), (''x'', JNum (Num 1)), (''y'', JNum (Num 1)),
                        (''button'', JStr ''left''), (''clickCount'', JNum (Num 1))]))] \<rparr>)"
    by (simp add: session0_def world0_def accepting_host_def simulateClick_def mouse_event_def io_defs)
  with off on center_samples(3,4) show ?thesis by simp
qed

text \<open>
  C2 (as amended). An action that names an \<^verbatim>\<open>elementId\<close> absent from the supplied
  snapshot fails with the element-not-found error and leaves the world as it was (no
  protocol command, no wait) when it is a Click, a Type with a truthy \<^verbatim>\<open>elementId\<close> and
  a non-empty text, or a Scroll with a non-empty direction. The session may be connected
  or not.
\<close>

theorem absent_element_fails:
  assumes "a_elementId a = Some elementId"
    and "find_element els elementId = None"
    and "a_type a = ''click'' \<or> a_type a = ''type'' \<or> a_type a = ''scroll''"
    and "a_type a = ''type'' \<longrightarrow> truthy_num elementId \<and> truthy_opt_str (a_text a)"
    and "a_type a = ''scroll'' \<longrightarrow> truthy_opt_str (a_direction a)"
  shows "executeAction h s a (Some els) w = (Inl (ElementNotFound elementId), w)"
  using assms
  by (auto simp: executeAction_def executeAction_click_def executeAction_type_def
      executeAction_scroll_def io_throw_def truthy_opt_num_def)

theorem absent_element_fails_witness:
  "executeAction accepting_host (session0 True) click_2 (Some [sample_element 1 (box 0 0 8 8)]) world0 =
     (Inl (ElementNotFound (Num 2)), world0)
   \<and> executeAction accepting_host (session0 True) (type_into 5 ''abc'') (Some [sample_element 1 (box 0 0 8 8)]) world0 =
     (Inl (ElementNotFound (Num 5)), world0)
   \<and> executeAction accepting_host (session0 True) (scroll_in 5 (Some ''down'')) (Some [sample_element 1 (box 0 0 8 8)]) world0 =
     (Inl (ElementNotFound (Num 5)), world0)"
  using absent_element_fails [of click_2 "Num 2" "[sample_element 1 (box 0 0 8 8)]" accepting_host "session0 True" world0]
    absent_element_fails [of "type_into 5 ''abc''" "Num 5" "[sample_element 1 (box 0 0 8 8)]" accepting_host "session0 True" world0]
    absent_element_fails [of "scroll_in 5 (Some ''down'')" "Num 5" "[sample_element 1 (box 0 0 8 8)]" accepting_host "session0 True" world0]
  by (simp add: click_2_def type_into_def scroll_in_def action_def find_element_def sample_element_def
      truthy_opt_str_def)

text \<open>
  A Type action with an empty text and a Scroll action without a direction fail on their
  argument check, whatever the \<^verbatim>\<open>elementId\<close>: the error is not element-not-found.
\<close>

theorem absent_element_other_error_counterexample:
  "find_element [sample_element 1 (box 0 0 8 8)] (Num 5) = None
   \<and> executeAction accepting_host (session0 True) (type_into 5 []) (Some [sample_element 1 (box 0 0 8 8)]) world0 =
     (Inl TypeRequiresText, world0)
   \<and> executeAction accepting_host (session0 True) (scroll_in 5 None) (Some [sample_element 1 (box 0 0 8 8)]) world0 =
     (Inl ScrollRequiresDirection, world0)"
  by (simp add: executeAction_def executeAction_type_def executeAction_scroll_def type_into_def
      scroll_in_def action_def find_element_def sample_element_def truthy_opt_str_def
      truthy_opt_num_def io_throw_def)

text \<open>
  The Type branch tests \<^verbatim>\<open>action.elementId\<close> for truthiness where the Click and Scroll
  branches compare it with \<^verbatim>\<open>undefined\<close>. With \<^verbatim>\<open>elementId = 0\<close> the element lookup is
  skipped and the text goes to whatever has the focus.
\<close>

lemma type_into_element_zero:
  "find_element [sample_element 1 (box 0 0 8 8)] (Num 0) = None
   \<and> executeAction accepting_host (session0 True) (type_into 0 ''abc'') (Some [sample_element 1 (box 0 0 8 8)]) world0 =
     (Inr (), world0\<lparr> trace := [Send 7 ''Input.insertText'' (Some (JObj [(''text'', JStr ''abc'')]))] \<rparr>)"
  by (simp add: executeAction_def executeAction_type_def type_into_def action_def find_element_def
      sample_element_def truthy_opt_str_def truthy_opt_num_def session0_def world0_def
      accepting_host_def simulateType_def io_defs)

text \<open>
  The commands that check the connection flag: on a session that is not connected they
  fail with the not-connected error and leave the world as it was.
\<close>

lemma unattached_guards:
  assumes "\<not> connected s"
  shows "captureScreenshot h s w = (Inl NotConnected, w)"
    and "simulateClick h s x y w = (Inl NotConnected, w)"
    and "simulateType h s text w = (Inl NotConnected, w)"
    and "simulateScroll h s direction amount sx sy w = (Inl NotConnected, w)"
  using assms
  by (simp_all add: captureScreenshot_def simulateClick_def simulateType_def simulateScroll_def
      io_throw_def)

text \<open>
  The click, type and scroll branches of \<^verbatim>\<open>executeAction\<close> reach the protocol only
  through these commands: on a session that is not connected they fail and leave the
  world as it was.
\<close>

lemma unattached_pointer_actions:
  assumes "\<not> connected s"
    and "a_type a = ''click'' \<or> a_type a = ''type'' \<or> a_type a = ''scroll''"
  shows "isl (fst (executeAction h s a els w)) \<and> snd (executeAction h s a els w) = w"
proof -
  have click: "isl (fst (executeAction_click h s a els w)) \<and> snd (executeAction_click h s a els w) = w"
    using assms(1)
    by (simp add: executeAction_click_def unattached_guards io_throw_def split: option.splits)
  have type: "isl (fst (executeAction_type h s a els w)) \<and> snd (executeAction_type h s a els w) = w"
    using assms(1)
    by (simp add: executeAction_type_def unattached_guards io_throw_def io_then_def io_bind_def
        split: option.splits)
  have scroll: "isl (fst (executeAction_scroll h s a els w)) \<and> snd (executeAction_scroll h s a els w) = w"
    using assms(1)
    by (simp add: executeAction_scroll_def unattached_guards io_throw_def split: option.splits)
  from assms(2) click type scroll show ?thesis
    by (auto simp: executeAction_def)
qed

text \<open>
  C3. Every command other than connect, issued on a session that is not connected,
  should fail with the not-connected error and issue no protocol command. The navigate
  branch of \<^verbatim>\<open>executeAction\<close> does not look at the flag: on a session that is not
  connected it sends \<^verbatim>\<open>Page.navigate\<close> and, the host accepting it, waits and returns
  normally.
\<close>

theorem navigate_unattached_sends:
  "\<not> connected (session0 False)
   \<and> executeAction accepting_host (session0 False) (navigate_to ''https://example.com/'') None world0 =
     (Inr (), world0\<lparr> trace :=
        [Send 7 ''Page.navigate'' (Some (JObj [(''url'', JStr ''https://example.com/'')])),
         Sleep (Num 3000)] \<rparr>)"
  by (simp add: executeAction_def executeAction_navigate_def navigate_to_def action_def
      truthy_opt_def session0_def world0_def accepting_host_def io_defs)

section \<open>The tab and its session\<close>

lemma sendCommand_next_sid: "sendCommand h s m p w = (r, w') \<Longrightarrow> next_sid w' = next_sid w"
  by (auto simp: sendCommand_def emit_def split: sum.splits)

lemma connect_keeps:
  assumes "connect h s w = (r, s', w')"
  shows "sid s' = sid s" and "s_tabId s' = s_tabId s" and "next_sid w' = next_sid w"
  using assms
  by (auto simp: connect_def emit_def sendCommand_def split: sum.splits option.splits if_splits)

lemma connect_success:
  assumes "connect h s w = (Inr u, s', w')"
  shows "connected s'" and "Attach (s_tabId s) \<in> set (drop (length (trace w)) (trace w'))"
  using assms
  by (auto simp: connect_def emit_def sendCommand_def split: sum.splits option.splits if_splits)


lemma ensure_connected_noop:
  assumes "t_cdpSession t = Some s" and "connected s"
  shows "ensureCDPConnection h t w = (Inr (), t, w)"
  using assms by (simp add: ensureCDPConnection_def isConnected_def)

lemma ensure_success_connected:
  assumes "ensureCDPConnection h t w = (Inr u, t1, w1)"
  shows "\<exists>s. t_cdpSession t1 = Some s \<and> connected s"
proof (cases "case t_cdpSession t of None \<Rightarrow> True | Some s \<Rightarrow> \<not> isConnected s")
  case True
  obtain s w2 where n: "new_CDPSession (t_tabId t)
      (case t_cdpSession t of Some old \<Rightarrow> snd (disconnect h old w) | None \<Rightarrow> w) = (s, w2)"
    by (cases "new_CDPSession (t_tabId t)
      (case t_cdpSession t of Some old \<Rightarrow> snd (disconnect h old w) | None \<Rightarrow> w)") 
  obtain r s' w3 where c: "connect h s w2 = (r, s', w3)"
    by (cases "connect h s w2")
  from assms True n c have "r = Inr u" "t1 = t\<lparr> t_cdpSession := Some s' \<rparr>"
    by (simp_all add: ensureCDPConnection_def Let_def)
  with connect_success(1) [of h s w2 u s' w3] c show ?thesis by simp
next
  case False
  with assms show ?thesis
    by (auto simp: ensureCDPConnection_def isConnected_def split: option.splits)
qed

text \<open>
  C7. When \<^verbatim>\<open>ensureCDPConnection\<close> has returned normally, a second call right after it,
  whatever the host does, returns normally and changes nothing: the tab, its session
  field (the same session object, connected) and the world, where no session is created
  and no command issued.
\<close>

theorem ensure_twice_same_session:
  assumes "ensureCDPConnection h t w = (Inr (), t1, w1)"
  shows "ensureCDPConnection h' t1 w1 = (Inr (), t1, w1)
       \<and> (\<exists>s. t_cdpSession t1 = Some s \<and> connected s)"
  using ensure_success_connected [OF assms] ensure_connected_noop by blast

theorem ensure_twice_same_session_witness:
  "ensureCDPConnection accepting_host (new_Tab 7 ''https://example.com/'') world0 =
     (Inr (),
      (new_Tab 7 ''https://example.com/'')\<lparr> t_cdpSession := Some \<lparr> sid = 1, s_tabId = 7, connected = True \<rparr> \<rparr>,
      \<lparr> trace = [Attach 7, Send 7 ''Page.enable'' None], next_sid = 2 \<rparr>)
   \<and> ensureCDPConnection accepting_host
       ((new_Tab 7 ''https://example.com/'')\<lparr> t_cdpSession := Some \<lparr> sid = 1, s_tabId = 7, connected = True \<rparr> \<rparr>)
       \<lparr> trace = [Attach 7, Send 7 ''Page.enable'' None], next_sid = 2 \<rparr> =
     (Inr (),
      (new_Tab 7 ''https://example.com/'')\<lparr> t_cdpSession := Some \<lparr> sid = 1, s_tabId = 7, connected = True \<rparr> \<rparr>,
      \<lparr> trace = [Attach 7, Send 7 ''Page.enable'' None], next_sid = 2 \<rparr>)"
proof -
  have first: "ensureCDPConnection accepting_host (new_Tab 7 ''https://example.com/'') world0 =
     (Inr (),
      (new_Tab 7 ''https://example.com/'')\<lparr> t_cdpSession := Some \<lparr> sid = 1, s_tabId = 7, connected = True \<rparr> \<rparr>,
      \<lparr> trace = [Attach 7, Send 7 ''Page.enable'' None], next_sid = 2 \<rparr>)"
    by (simp add: ensureCDPConnection_def new_Tab_def world0_def new_CDPSession_def connect_def
        accepting_host_def starts_with_def sendCommand_def emit_def)
  from ensure_twice_same_session [OF first, of accepting_host] first show ?thesis by simp
qed












text \<open>
  The two conditions on the tab under which the next result is stated are kept by the
  tab's own operations: the document carries the tab's URL, and the session's number
  is below the world's counter.
\<close>

lemma document_url_kept:
  "\<forall>d. t_document (Tab_initialize (new_Tab tabId url)) = Some d \<longrightarrow> d_url d = url"
  "(\<forall>d. t_document t = Some d \<longrightarrow> d_url d = t_url t) \<Longrightarrow>
     \<forall>d. t_document (fst (onUrlChanged h newUrl t w)) = Some d \<longrightarrow>
       d_url d = t_url (fst (onUrlChanged h newUrl t w))"
  by (auto simp: Tab_initialize_def new_Tab_def updateUrl_def new_Document_def onUrlChanged_def
      Let_def split: option.splits)

lemma session_number_kept:
  assumes "\<forall>s. t_cdpSession t = Some s \<longrightarrow> sid s < next_sid w"
    and "ensureCDPConnection h t w = (r, t1, w1)"
  shows "\<forall>s. t_cdpSession t1 = Some s \<longrightarrow> sid s < next_sid w1"
proof (cases "case t_cdpSession t of None \<Rightarrow> True | Some s \<Rightarrow> \<not> isConnected s")
  case False
  with assms show ?thesis
    by (auto simp: ensureCDPConnection_def split: option.splits)
next
  case True
  let ?w1 = "case t_cdpSession t of Some old \<Rightarrow> snd (disconnect h old w) | None \<Rightarrow> w"
  let ?s = "\<lparr> sid = next_sid ?w1, s_tabId = t_tabId t, connected = False \<rparr>"
  obtain r' s' w3 where c: "connect h ?s (?w1\<lparr> next_sid := Suc (next_sid ?w1) \<rparr>) = (r', s', w3)"
    by (cases "connect h ?s (?w1\<lparr> next_sid := Suc (next_sid ?w1) \<rparr>)")
  from True assms(2) c have "t1 = t\<lparr> t_cdpSession := Some s' \<rparr>" "w1 = w3"
    by (simp_all add: ensureCDPConnection_def new_CDPSession_def Let_def)
  with connect_keeps [OF c] show ?thesis by simp
qed

lemma map_of_map_set: "map_of (map_set k v m) = (map_of m)(k \<mapsto> v)"
  by (induction m) (auto simp: fun_eq_iff)






section \<open>The browser and the controller\<close>

lemma map_of_map_delete: "map_of (map_delete k m) k' = (if k' = k then None else map_of m k')"
  by (induction m) (auto simp: map_delete_def)

lemma list_all_map_set: "list_all P m \<Longrightarrow> P (k, v) \<Longrightarrow> list_all P (map_set k v m)"
  by (induction m) auto

lemma list_all_map_delete: "list_all P m \<Longrightarrow> list_all P (map_delete k m)"
  by (induction m) (auto simp: map_delete_def)

lemma list_all_map_of: "list_all P m \<Longrightarrow> map_of m k = Some v \<Longrightarrow> P (k, v)"
  by (induction m) (auto split: if_splits)

lemma Tab_initialize_tabId: "t_tabId (Tab_initialize (new_Tab tabId url)) = tabId"
  by (simp add: Tab_initialize_def new_Tab_def)

lemma createTab_ok:
  assumes "keys_match b" and "active_is_key b"
  shows "active_is_key (snd (createTab tabId url b))" and "keys_match (snd (createTab tabId url b))"
  using assms
  by (auto simp: createTab_def active_is_key_def keys_match_def getTab_def map_of_map_set Let_def
      Tab_initialize_tabId list_all_map_set split: option.splits)

lemma set_then_create_ok:
  assumes "keys_match b"
  shows "active_is_key (snd (createTab tabId url (setActiveTab tabId b)))"
    and "keys_match (snd (createTab tabId url (setActiveTab tabId b)))"
  using assms
  by (auto simp: createTab_def setActiveTab_def active_is_key_def keys_match_def getTab_def
      map_of_map_set Let_def Tab_initialize_tabId list_all_map_set)

lemma removeTab_ok:
  assumes "keys_match b" and "active_is_key b"
  shows "active_is_key (fst (removeTab h tabId b w))" and "keys_match (fst (removeTab h tabId b w))"
proof -
  have first: "map_of m (t_tabId (snd (hd m))) \<noteq> None"
    if "list_all (\<lambda>kv. t_tabId (snd kv) = fst kv) m" "m \<noteq> []" for m :: "(int \<times> tab) list"
    using that by (cases m) auto
  show "keys_match (fst (removeTab h tabId b w))"
    using assms(1)
    by (auto simp: removeTab_def keys_match_def list_all_map_delete split: option.splits prod.splits)
  show "active_is_key (fst (removeTab h tabId b w))"
  proof (cases "map_of (b_tabs b) tabId")
    case None
    with assms show ?thesis
      by (auto simp: removeTab_def active_is_key_def getTab_def split: option.splits list.splits)
  next
    case (Some t)
    have km: "list_all (\<lambda>kv. t_tabId (snd kv) = fst kv) (map_delete tabId (b_tabs b))"
      using assms(1) by (simp add: keys_match_def list_all_map_delete)
    show ?thesis
    proof (cases "b_activeTabId b = Some tabId")
      case True
      with Some first [OF km] show ?thesis
        by (auto simp: removeTab_def active_is_key_def getTab_def split: list.splits)
    next
      case False
      with Some assms(2) show ?thesis
        by (auto simp: removeTab_def active_is_key_def getTab_def map_of_map_delete
            split: option.splits)
    qed
  qed
qed

lemma Browser_destroy_ok:
  "active_is_key (fst (Browser_destroy h b w))" "keys_match (fst (Browser_destroy h b w))"
  by (simp_all add: Browser_destroy_def active_is_key_def keys_match_def)

lemma setActiveTab_ok: "active_is_key (setActiveTab tabId b) \<longleftrightarrow> getTab b tabId \<noteq> None"
  by (simp add: setActiveTab_def active_is_key_def getTab_def)

lemma setActiveTab_keys: "keys_match (setActiveTab tabId b) = keys_match b"
  by (simp add: setActiveTab_def keys_match_def)

lemma onTabActivated_ok:
  assumes "browsers_ok c" and "tabs_get h (trace w) tabId = Inr (Some info)"
  shows "fst (onTabActivated h tabId windowId c w) = Inr ()"
    and "browsers_ok (snd (onTabActivated h tabId windowId c w))"
proof -
  show "fst (onTabActivated h tabId windowId c w) = Inr ()"
    using assms(2) by (simp add: onTabActivated_def Let_def split: option.splits)
  show "browsers_ok (snd (onTabActivated h tabId windowId c w))"
  proof (cases "map_of (c_browsers c) windowId")
    case None
    with assms(1) show ?thesis by (simp add: onTabActivated_def browsers_ok_def)
  next
    case (Some b)
    from list_all_map_of [OF assms(1) [unfolded browsers_ok_def] Some]
    have b: "active_is_key b" "keys_match b" by simp_all
    have same: "getTab (setActiveTab tabId b) tabId = getTab b tabId"
      by (simp add: setActiveTab_def getTab_def)
    show ?thesis
    proof (cases "getTab b tabId")
      case None
      have "browsers_ok (c\<lparr> c_activeWindowId := Some windowId,
                c_browsers := map_set windowId
                  (snd (createTab tabId (url_or_empty (ti_url info)) (setActiveTab tabId b)))
                  (c_browsers c) \<rparr>)"
        using assms(1) set_then_create_ok [OF b(2)]
        by (simp add: browsers_ok_def list_all_map_set)
      with None \<open>map_of (c_browsers c) windowId = Some b\<close> assms(2) same show ?thesis
        by (simp add: onTabActivated_def Let_def)
    next
      case (Some t)
      have "browsers_ok (c\<lparr> c_activeWindowId := Some windowId,
                c_browsers := map_set windowId (setActiveTab tabId b) (c_browsers c) \<rparr>)"
        using assms(1) b(2) Some
        by (simp add: browsers_ok_def list_all_map_set setActiveTab_ok setActiveTab_keys)
      with Some \<open>map_of (c_browsers c) windowId = Some b\<close> same show ?thesis
        by (simp add: onTabActivated_def Let_def)
    qed
  qed
qed

text \<open>A new browser has the property, and its (empty) map stores every tab under its own id.\<close>

lemma new_Browser_ok: "active_is_key (new_Browser windowId)" "keys_match (new_Browser windowId)"
  by (simp_all add: new_Browser_def active_is_key_def keys_match_def)

text \<open>
  C6 (as amended). In a browser that stores every tab under its own identifier, the
  property that \<^verbatim>\<open>activeTabId\<close>, if non-null, is a key of \<^verbatim>\<open>tabs\<close> is kept by
  \<^verbatim>\<open>createTab\<close>, \<^verbatim>\<open>removeTab\<close> and \<^verbatim>\<open>destroy\<close>. \<^verbatim>\<open>setActiveTab(tabId)\<close> assigns without
  looking: the property holds after it exactly when \<^verbatim>\<open>tabId\<close> is a key of \<^verbatim>\<open>tabs\<close>.
  \<^verbatim>\<open>onTabActivated\<close>, which sets the active tab first and creates a missing tab
  afterwards, keeps the property in every browser when the host's lookup yields the tab.
\<close>

theorem active_tab_key_preserved:
  "(keys_match b \<and> active_is_key b \<longrightarrow>
       active_is_key (snd (createTab tabId url b)) \<and> keys_match (snd (createTab tabId url b))
     \<and> active_is_key (fst (removeTab h tabId b w)) \<and> keys_match (fst (removeTab h tabId b w))
     \<and> active_is_key (fst (Browser_destroy h b w)) \<and> keys_match (fst (Browser_destroy h b w))
     \<and> (active_is_key (setActiveTab tabId b) \<longleftrightarrow> getTab b tabId \<noteq> None)
     \<and> active_is_key (snd (createTab tabId url (setActiveTab tabId b))))
   \<and> (browsers_ok c \<and> tabs_get h (trace w) tabId = Inr (Some info) \<longrightarrow>
        fst (onTabActivated h tabId windowId c w) = Inr ()
      \<and> browsers_ok (snd (onTabActivated h tabId windowId c w)))"
proof (intro conjI impI)
  assume "browsers_ok c \<and> tabs_get h (trace w) tabId = Inr (Some info)"
  then show "fst (onTabActivated h tabId windowId c w) = Inr ()"
    and "browsers_ok (snd (onTabActivated h tabId windowId c w))"
    by (simp_all add: onTabActivated_ok)
next
  assume "keys_match b \<and> active_is_key b"
  then show "active_is_key (snd (createTab tabId url b))"
    and "keys_match (snd (createTab tabId url b))"
    and "active_is_key (fst (removeTab h tabId b w))"
    and "keys_match (fst (removeTab h tabId b w))"
    and "active_is_key (snd (createTab tabId url (setActiveTab tabId b)))"
    by (simp_all add: createTab_ok removeTab_ok set_then_create_ok)
qed (simp_all add: Browser_destroy_ok setActiveTab_ok)

theorem active_tab_key_preserved_witness:
  "keys_match (browser_of 1 [4, 9] (Some 4)) \<and> active_is_key (browser_of 1 [4, 9] (Some 4))
   \<and> b_activeTabId (fst (removeTab accepting_host 4 (browser_of 1 [4, 9] (Some 4)) world0)) = Some 9
   \<and> active_is_key (fst (removeTab accepting_host 4 (browser_of 1 [4, 9] (Some 4)) world0))
   \<and> active_is_key (snd (createTab 5 [] (browser_of 1 [4, 9] (Some 4))))
   \<and> active_is_key (setActiveTab 9 (browser_of 1 [4, 9] (Some 4)))
   \<and> \<not> active_is_key (setActiveTab 5 (browser_of 1 [4, 9] (Some 4)))
   \<and> browsers_ok (controller_of [browser_of 1 [4, 9] (Some 4)] (Some 1))
   \<and> browsers_ok (snd (onTabActivated accepting_host 5 1 (controller_of [browser_of 1 [4, 9] (Some 4)] (Some 1)) world0))"
proof -
  have k: "keys_match (browser_of 1 [4, 9] (Some 4))" "active_is_key (browser_of 1 [4, 9] (Some 4))"
    by (simp_all add: keys_match_def active_is_key_def browser_of_def getTab_def Tab_initialize_def new_Tab_def)
  have c: "browsers_ok (controller_of [browser_of 1 [4, 9] (Some 4)] (Some 1))"
    using k by (simp add: browsers_ok_def controller_of_def)
  have g: "tabs_get accepting_host (trace world0) i = Inr (Some \<lparr> ti_url = Some ''https://example.com/'' \<rparr>)"
    for i by (simp add: accepting_host_def)
  have r: "b_activeTabId (fst (removeTab accepting_host 4 (browser_of 1 [4, 9] (Some 4)) world0)) = Some 9"
    by (simp add: removeTab_def browser_of_def map_delete_def Tab_initialize_def new_Tab_def)
  have s9: "getTab (browser_of 1 [4, 9] (Some 4)) 9 \<noteq> None" "getTab (browser_of 1 [4, 9] (Some 4)) 5 = None"
    by (simp_all add: getTab_def browser_of_def)
  show ?thesis
    using active_tab_key_preserved [where b = "browser_of 1 [4, 9] (Some 4)" and tabId = 5 and url = "[]"
        and h = accepting_host and w = world0
        and c = "controller_of [browser_of 1 [4, 9] (Some 4)] (Some 1)"
        and info = "\<lparr> ti_url = Some ''https://example.com/'' \<rparr>" and windowId = 1]
      active_tab_key_preserved [where b = "browser_of 1 [4, 9] (Some 4)" and tabId = 4 and url = "[]"
        and h = accepting_host and w = world0
        and c = "controller_of [browser_of 1 [4, 9] (Some 4)] (Some 1)"
        and info = "\<lparr> ti_url = Some ''https://example.com/'' \<rparr>" and windowId = 1]
      active_tab_key_preserved [where b = "browser_of 1 [4, 9] (Some 4)" and tabId = 9 and url = "[]"
        and h = accepting_host and w = world0
        and c = "controller_of [browser_of 1 [4, 9] (Some 4)] (Some 1)"
        and info = "\<lparr> ti_url = Some ''https://example.com/'' \<rparr>" and windowId = 1]
      k c g r s9
    by simp
qed

text \<open>
  \<^verbatim>\<open>setActiveTab\<close> with an unknown identifier breaks the property; so does
  \<^verbatim>\<open>onTabActivated\<close> when the host's lookup yields no tab or rejects.
\<close>

theorem set_active_tab_unknown_counterexample:
  "\<not> active_is_key (setActiveTab 5 (new_Browser 1))
   \<and> active_is_key (browser_of 1 [4] (Some 4))
   \<and> onTabActivated no_tab_host 5 1 (controller_of [browser_of 1 [4] (Some 4)] (Some 1)) world0 =
       (Inr (), controller_of [browser_of 1 [4] (Some 5)] (Some 1))
   \<and> onTabActivated rejecting_host 5 1 (controller_of [browser_of 1 [4] (Some 4)] (Some 1)) world0 =
       (Inl (HostError ''No tab with id''), controller_of [browser_of 1 [4] (Some 5)] (Some 1))
   \<and> \<not> active_is_key (browser_of 1 [4] (Some 5))"
  by (simp add: active_is_key_def setActiveTab_def new_Browser_def getTab_def browser_of_def
      onTabActivated_def controller_of_def no_tab_host_def rejecting_host_def accepting_host_def
      world0_def)

text \<open>
  C10. The active-lookup operations test the active identifier for truthiness. With the
  identifier \<open>0\<close>, \<^verbatim>\<open>getActiveTab\<close> and \<^verbatim>\<open>getActiveBrowser\<close> return \<^verbatim>\<open>null\<close> whether or
  not a tab or a browser is stored under \<open>0\<close>; with any other identifier they return what
  the map holds.
\<close>

theorem zero_id_is_absent:
  "(b_activeTabId b = Some 0 \<longrightarrow> getActiveTab b = None)
   \<and> (b_activeTabId b = Some n \<and> n \<noteq> 0 \<longrightarrow> getActiveTab b = getTab b n)
   \<and> (c_activeWindowId c = Some 0 \<longrightarrow> getActiveBrowser c = None)
   \<and> (c_activeWindowId c = Some m \<and> m \<noteq> 0 \<longrightarrow> getActiveBrowser c = map_of (c_browsers c) m)"
  by (simp add: getActiveTab_def getActiveBrowser_def getTab_def)

theorem zero_id_is_absent_witness:
  "getTab (browser_of 1 [0, 4] (Some 0)) 0 \<noteq> None
   \<and> getActiveTab (browser_of 1 [0, 4] (Some 0)) = None
   \<and> getActiveTab (browser_of 1 [0, 4] (Some 4)) = getTab (browser_of 1 [0, 4] (Some 4)) 4
   \<and> getTab (browser_of 1 [0, 4] (Some 4)) 4 \<noteq> None
   \<and> map_of (c_browsers (controller_of [browser_of 0 [3] None, browser_of 2 [] None] (Some 0))) 0 \<noteq> None
   \<and> getActiveBrowser (controller_of [browser_of 0 [3] None, browser_of 2 [] None] (Some 0)) = None
   \<and> getActiveBrowser (controller_of [browser_of 0 [3] None, browser_of 2 [] None] (Some 2))
       = Some (browser_of 2 [] None)"
  using zero_id_is_absent [of "browser_of 1 [0, 4] (Some 0)" 0
            "controller_of [browser_of 0 [3] None, browser_of 2 [] None] (Some 0)" 0]
    zero_id_is_absent [of "browser_of 1 [0, 4] (Some 4)" 4
            "controller_of [browser_of 0 [3] None, browser_of 2 [] None] (Some 2)" 2]
  by (simp add: browser_of_def controller_of_def getTab_def)

section \<open>The agent loop\<close>

text \<open>\<^verbatim>\<open>String\<close> does not throw on \<^verbatim>\<open>null\<close>, a boolean, a number or a string.\<close>

lemma js_String_scalar:
  "js_String js JNull \<noteq> None" "js_String js (JBool b) \<noteq> None"
  "js_String js (JNum n) \<noteq> None" "js_String js (JStr s) \<noteq> None"
  by (simp_all add: js_String_def)






lemma agent_loop_halt:
  "\<not> (go \<and> currentStep c < maxSteps \<and> \<not> shouldStop c) \<Longrightarrow>
     agent_loop js ui env q c steps go = (None, c, steps)"
  by (subst agent_loop.simps) auto

lemma agent_loop_next:
  assumes "currentStep c < maxSteps" and "\<not> shouldStop c"
    and "run_cycle js ui (with_progress env) (cycle env (Suc (currentStep c))) q (c\<lparr> currentStep := Suc (currentStep c) \<rparr>) = Next r go"
  shows "agent_loop js ui env q c steps True =
     agent_loop js ui env q
       (updateScratchpad r (if ev_stop (cycle env (Suc (currentStep c)))
                            then stop (c\<lparr> currentStep := Suc (currentStep c) \<rparr>)
                            else c\<lparr> currentStep := Suc (currentStep c) \<rparr>))
       (steps @ [r]) go"
  using assms by (subst agent_loop.simps) (simp add: Let_def)

lemma updateScratchpad_fields [simp]:
  "currentStep (updateScratchpad r c) = currentStep c"
  "isRunning (updateScratchpad r c) = isRunning c"
  "shouldStop (updateScratchpad r c) = shouldStop c"
  by (simp_all add: updateScratchpad_def Let_def)

lemma stop_fields [simp]:
  "currentStep (stop c) = currentStep c"
  "isRunning (stop c) = isRunning c"
  "shouldStop (stop c) = (isRunning c \<or> shouldStop c)"
  "scratchpad (stop c) = scratchpad c"
  by (auto simp: stop_def)

lemma agent_loop_bounds:
  assumes "agent_loop js ui env q c steps go = (e, c', steps')"
  shows "currentStep c \<le> currentStep c'
       \<and> (currentStep c \<le> maxSteps \<longrightarrow> currentStep c' \<le> maxSteps)
       \<and> length steps' \<le> length steps + (currentStep c' - currentStep c)"
  using assms
proof (induction js ui env q c steps go rule: agent_loop.induct)
  case (1 js ui env q c steps go)
  show ?case
  proof (cases "go \<and> currentStep c < maxSteps \<and> \<not> shouldStop c")
    case False
    with "1.prems" show ?thesis by (simp add: agent_loop_halt)
  next
    case True
    let ?c1 = "c\<lparr> currentStep := currentStep c + 1 \<rparr>"
    let ?ev = "cycle env (currentStep ?c1)"
    let ?c2 = "if ev_stop ?ev then stop ?c1 else ?c1"
    show ?thesis
    proof (cases "run_cycle js ui (with_progress env) ?ev q ?c1")
      case (Threw x)
      with True "1.prems" show ?thesis
        by (subst (asm) agent_loop.simps) (auto simp: Let_def)
    next
      case (Break r)
      with True "1.prems" show ?thesis
        by (subst (asm) agent_loop.simps) (auto simp: Let_def)
    next
      case (Next r go')
      from True Next "1.prems"
      have rec: "agent_loop js ui env q (updateScratchpad r ?c2) (steps @ [r]) go' = (e, c', steps')"
        by (subst (asm) agent_loop.simps) (auto simp: Let_def split: if_splits)
      from "1.IH" [OF True refl refl refl Next rec] True show ?thesis
        by (auto split: if_splits)
    qed
  qed
qed

lemma all_next_reaches_max:
  assumes "\<forall>k c'. \<exists>r. run_cycle js ui (with_progress env) (cycle env k) q c' = Next r True"
    and "\<forall>k. \<not> ev_stop (cycle env k)"
  shows "\<not> shouldStop c \<Longrightarrow> currentStep c \<le> maxSteps \<Longrightarrow>
     \<exists>c' steps'. agent_loop js ui env q c steps True = (None, c', steps')
        \<and> currentStep c' = maxSteps \<and> \<not> shouldStop c'
        \<and> length steps' = length steps + (maxSteps - currentStep c)"
proof (induction "maxSteps - currentStep c" arbitrary: c steps)
  case 0
  then show ?case by (simp add: agent_loop_halt)
next
  case (Suc n)
  then have lt: "currentStep c < maxSteps" by simp
  let ?c1 = "c\<lparr> currentStep := Suc (currentStep c) \<rparr>"
  from assms(1) obtain r where r: "run_cycle js ui (with_progress env) (cycle env (Suc (currentStep c))) q ?c1 = Next r True"
    by blast
  have step: "agent_loop js ui env q c steps True =
      agent_loop js ui env q (updateScratchpad r ?c1) (steps @ [r]) True"
    using agent_loop_next [OF lt Suc.prems(1) r] assms(2) by simp
  have "n = maxSteps - currentStep (updateScratchpad r ?c1)"
    using Suc.hyps(2) by simp
  from Suc.hyps(1) [OF this, of "steps @ [r]"] Suc.prems lt
  obtain c' steps' where "agent_loop js ui env q (updateScratchpad r ?c1) (steps @ [r]) True = (None, c', steps')"
    "currentStep c' = maxSteps" "\<not> shouldStop c'"
    "length steps' = length (steps @ [r]) + (maxSteps - Suc (currentStep c))"
    by auto
  with step lt show ?case by auto
qed

lemma loop_cancelled_after_three:
  assumes "\<forall>c'. \<exists>r. run_cycle js ui (with_progress env) (cycle env (Suc 0)) q c' = Next r True"
    and "\<forall>c'. \<exists>r. run_cycle js ui (with_progress env) (cycle env (Suc (Suc 0))) q c' = Next r True"
    and "\<forall>c'. \<exists>r. run_cycle js ui (with_progress env) (cycle env (Suc (Suc (Suc 0)))) q c' = Next r True"
    and "\<not> ev_stop (cycle env (Suc 0))" and "\<not> ev_stop (cycle env (Suc (Suc 0)))"
    and "ev_stop (cycle env (Suc (Suc (Suc 0))))"
  shows "\<exists>c' steps'. agent_loop js ui env q (run_start c) [] True = (None, c', steps')
          \<and> shouldStop c' \<and> currentStep c' = 3 \<and> length steps' = 3"
proof -
  let ?c0 = "run_start c"
  have c0: "currentStep ?c0 = 0" "\<not> shouldStop ?c0" "isRunning ?c0"
    by (simp_all add: run_start_def)
  let ?a1 = "?c0\<lparr> currentStep := Suc (currentStep ?c0) \<rparr>"
  from assms(1) obtain r1 where r1: "run_cycle js ui (with_progress env) (cycle env (Suc (currentStep ?c0))) q ?a1 = Next r1 True"
    unfolding c0 by blast
  let ?c1 = "updateScratchpad r1 ?a1"
  have s1: "agent_loop js ui env q ?c0 [] True = agent_loop js ui env q ?c1 [r1] True"
    using agent_loop_next [OF _ c0(2) r1, of "[]"] assms(4) c0 by (simp add: maxSteps_def)
  have c1: "currentStep ?c1 = Suc 0" "\<not> shouldStop ?c1" "isRunning ?c1"
    using c0 by simp_all
  let ?a2 = "?c1\<lparr> currentStep := Suc (currentStep ?c1) \<rparr>"
  from assms(2) obtain r2 where r2: "run_cycle js ui (with_progress env) (cycle env (Suc (currentStep ?c1))) q ?a2 = Next r2 True"
    unfolding c1 by blast
  let ?c2 = "updateScratchpad r2 ?a2"
  have s2: "agent_loop js ui env q ?c1 [r1] True = agent_loop js ui env q ?c2 [r1, r2] True"
    using agent_loop_next [OF _ c1(2) r2, of "[r1]"] assms(5) c1 by (simp add: maxSteps_def)
  have c2: "currentStep ?c2 = Suc (Suc 0)" "\<not> shouldStop ?c2" "isRunning ?c2"
    using c1 by simp_all
  let ?a3 = "?c2\<lparr> currentStep := Suc (currentStep ?c2) \<rparr>"
  from assms(3) obtain r3 where r3: "run_cycle js ui (with_progress env) (cycle env (Suc (currentStep ?c2))) q ?a3 = Next r3 True"
    unfolding c2 by blast
  let ?c3 = "updateScratchpad r3 (stop ?a3)"
  have s3: "agent_loop js ui env q ?c2 [r1, r2] True = agent_loop js ui env q ?c3 [r1, r2, r3] True"
    using agent_loop_next [OF _ c2(2) r3, of "[r1, r2]"] assms(6) c2
    by (simp add: maxSteps_def)
  have c3: "currentStep ?c3 = 3" "shouldStop ?c3"
    using c2 by simp_all
  have "agent_loop js ui env q ?c3 [r1, r2, r3] True = (None, ?c3, [r1, r2, r3])"
    using c3 by (simp add: agent_loop_halt)
  with s1 s2 s3 c3 show ?thesis by simp
qed

text \<open>
  C5. A run executes at most \<^verbatim>\<open>maxSteps = 10\<close> cycles and records at most that many
  steps, whatever the surroundings do; when every cycle runs to its end with a
  non-terminal decision and nobody calls \<^verbatim>\<open>stop()\<close>, it executes exactly 10. When the
  first three cycles run to their end with a non-terminal decision and \<^verbatim>\<open>stop()\<close> is
  called during the third (and not before), the run ends after that cycle with the
  result of a cancelled run, \<^verbatim>\<open>error = 'User cancelled'\<close> and \<^verbatim>\<open>success = false\<close>, and with
  exactly 3 recorded steps.
\<close>

theorem run_bounded_and_cancellable:
  "maxSteps = 10
   \<and> currentStep (snd (runAgent js ui env q c)) \<le> maxSteps
   \<and> length (ar_steps (fst (runAgent js ui env q c))) \<le> maxSteps
   \<and> ((\<forall>k c'. \<exists>r. run_cycle js ui (with_progress env) (cycle env k) q c' = Next r True)
        \<and> (\<forall>k. \<not> ev_stop (cycle env k)) \<and> \<not> stop_in_cleanup env \<longrightarrow>
        currentStep (snd (runAgent js ui env q c)) = 10
      \<and> length (ar_steps (fst (runAgent js ui env q c))) = 10)
   \<and> ((\<forall>k \<in> {1, 2, 3}. \<forall>c'. \<exists>r. run_cycle js ui (with_progress env) (cycle env k) q c' = Next r True)
        \<and> \<not> ev_stop (cycle env 1) \<and> \<not> ev_stop (cycle env 2) \<and> ev_stop (cycle env 3) \<longrightarrow>
        ar_error (fst (runAgent js ui env q c)) = Some ''User cancelled''
      \<and> \<not> ar_success (fst (runAgent js ui env q c))
      \<and> ar_summary (fst (runAgent js ui env q c)) = txt_cancelled_prefix ui @ ''3'' @ txt_cancelled_suffix ui
      \<and> length (ar_steps (fst (runAgent js ui env q c))) = 3
      \<and> currentStep (snd (runAgent js ui env q c)) = 3)"
proof -
  obtain e c' steps' where loop: "agent_loop js ui env q (run_start c) [] True = (e, c', steps')"
    by (cases "agent_loop js ui env q (run_start c) [] True")
  have start: "currentStep (run_start c) = 0" "\<not> shouldStop (run_start c)"
    by (simp_all add: run_start_def)
  from agent_loop_bounds [OF loop] start
  have b: "currentStep c' \<le> maxSteps" "length steps' \<le> maxSteps" by auto
  have fields: "currentStep (snd (runAgent js ui env q c)) = currentStep c'"
    "ar_steps (fst (runAgent js ui env q c)) = steps'"
    using loop
    by (auto simp: runAgent_def Let_def run_finally_def split: option.splits)
  have full: "currentStep (snd (runAgent js ui env q c)) = 10
      \<and> length (ar_steps (fst (runAgent js ui env q c))) = 10"
    if "\<forall>k c'. \<exists>r. run_cycle js ui (with_progress env) (cycle env k) q c' = Next r True"
      "\<forall>k. \<not> ev_stop (cycle env k)"
  proof -
    from all_next_reaches_max [OF that start(2), of "[]"] start(1) loop fields
    show ?thesis by (auto simp: maxSteps_def)
  qed
  have cancel: "ar_error (fst (runAgent js ui env q c)) = Some ''User cancelled''
      \<and> \<not> ar_success (fst (runAgent js ui env q c))
      \<and> ar_summary (fst (runAgent js ui env q c)) = txt_cancelled_prefix ui @ ''3'' @ txt_cancelled_suffix ui
      \<and> length (ar_steps (fst (runAgent js ui env q c))) = 3
      \<and> currentStep (snd (runAgent js ui env q c)) = 3"
    if "\<forall>k \<in> {1, 2, 3}. \<forall>c'. \<exists>r. run_cycle js ui (with_progress env) (cycle env k) q c' = Next r True"
      "\<not> ev_stop (cycle env 1)" "\<not> ev_stop (cycle env 2)" "ev_stop (cycle env 3)"
  proof -
    from that(1) have "\<forall>c'. \<exists>r. run_cycle js ui (with_progress env) (cycle env (Suc 0)) q c' = Next r True"
      "\<forall>c'. \<exists>r. run_cycle js ui (with_progress env) (cycle env (Suc (Suc 0))) q c' = Next r True"
      "\<forall>c'. \<exists>r. run_cycle js ui (with_progress env) (cycle env (Suc (Suc (Suc 0)))) q c' = Next r True"
      by (simp_all add: numeral_2_eq_2 [symmetric] numeral_3_eq_3 [symmetric])
    moreover from that(2-4) have "\<not> ev_stop (cycle env (Suc 0))" "\<not> ev_stop (cycle env (Suc (Suc 0)))"
      "ev_stop (cycle env (Suc (Suc (Suc 0))))"
      by (simp_all add: numeral_2_eq_2 [symmetric] numeral_3_eq_3 [symmetric])
    ultimately have "\<exists>c' steps'. agent_loop js ui env q (run_start c) [] True = (None, c', steps')
          \<and> shouldStop c' \<and> currentStep c' = 3 \<and> length steps' = 3"
      by (rule loop_cancelled_after_three)
    with loop
    have "e = None" "shouldStop c'" "currentStep c' = 3" "length steps' = 3" by auto
    with loop show ?thesis
      by (simp add: runAgent_def Let_def run_finally_def show_nat.simps)
  qed
  from b fields full cancel show ?thesis by (simp add: maxSteps_def)
qed

theorem run_bounded_and_cancellable_witness:
  "ar_error (fst (runAgent plain_builtins english_text (always_wait (Some 3)) ''q'' new_AgentController))
     = Some ''User cancelled''
   \<and> length (ar_steps (fst (runAgent plain_builtins english_text (always_wait (Some 3)) ''q'' new_AgentController))) = 3
   \<and> currentStep (snd (runAgent plain_builtins english_text (always_wait (Some 3)) ''q'' new_AgentController)) = 3
   \<and> length (ar_steps (fst (runAgent plain_builtins english_text (always_wait None) ''q'' new_AgentController))) = 10"
proof -
  have nxt: "\<exists>r. run_cycle plain_builtins english_text (with_progress (always_wait s)) (cycle (always_wait s) k) ''q'' c' = Next r True" for s k c'
    by (simp add: run_cycle_def always_wait_def cycle_with_def predict_def sample_element_def
        convertPredictionToAction_def action_def getActionDescription_def)
  have st: "\<not> ev_stop (cycle (always_wait (Some 3)) 1)" "\<not> ev_stop (cycle (always_wait (Some 3)) 2)"
    "ev_stop (cycle (always_wait (Some 3)) 3)" "\<not> ev_stop (cycle (always_wait None) k)"
    "\<not> stop_in_cleanup (always_wait None)" for k
    by (simp_all add: always_wait_def cycle_with_def)
  show ?thesis
    using run_bounded_and_cancellable [of plain_builtins english_text "always_wait (Some 3)" "''q''" new_AgentController]
      run_bounded_and_cancellable [of plain_builtins english_text "always_wait None" "''q''" new_AgentController]
      nxt st
    by simp
qed

text \<open>Within a run the scratchpad is only appended to.\<close>

lemma scratchpad_grows_in_loop:
  assumes "agent_loop js ui env q c steps go = (e, c', steps')"
  shows "\<exists>suffix. scratchpad c' = scratchpad c @ suffix"
  using assms
proof (induction js ui env q c steps go rule: agent_loop.induct)
  case (1 js ui env q c steps go)
  show ?case
  proof (cases "go \<and> currentStep c < maxSteps \<and> \<not> shouldStop c")
    case False
    with "1.prems" show ?thesis by (simp add: agent_loop_halt)
  next
    case True
    let ?c1 = "c\<lparr> currentStep := currentStep c + 1 \<rparr>"
    let ?ev = "cycle env (currentStep ?c1)"
    let ?c2 = "if ev_stop ?ev then stop ?c1 else ?c1"
    have c2: "scratchpad ?c2 = scratchpad c" by simp
    show ?thesis
    proof (cases "run_cycle js ui (with_progress env) ?ev q ?c1")
      case (Threw x)
      with True "1.prems" show ?thesis
        by (subst (asm) agent_loop.simps) (auto simp: Let_def)
    next
      case (Break r)
      with True "1.prems" show ?thesis
        by (subst (asm) agent_loop.simps) (auto simp: Let_def)
    next
      case (Next r go')
      from True Next "1.prems"
      have rec: "agent_loop js ui env q (updateScratchpad r ?c2) (steps @ [r]) go' = (e, c', steps')"
        by (subst (asm) agent_loop.simps) (auto simp: Let_def split: if_splits)
      from "1.IH" [OF True refl refl refl Next rec]
      obtain suffix where "scratchpad c' = scratchpad (updateScratchpad r ?c2) @ suffix" by blast
      moreover have "\<exists>added. scratchpad (updateScratchpad r ?c2) = scratchpad ?c2 @ added"
        by (simp add: updateScratchpad_def Let_def)
      ultimately show ?thesis using c2 by (metis append.assoc)
    qed
  qed
qed

lemma scratchpad_grows_in_run:
  "\<exists>suffix. scratchpad (snd (runAgent js ui env q c)) = scratchpad c @ suffix"
proof -
  obtain e c' steps' where loop: "agent_loop js ui env q (run_start c) [] True = (e, c', steps')"
    by (cases "agent_loop js ui env q (run_start c) [] True")
  have "scratchpad (snd (runAgent js ui env q c)) = scratchpad c'"
    using loop by (auto simp: runAgent_def Let_def run_finally_def split: option.splits)
  with scratchpad_grows_in_loop [OF loop] show ?thesis by (simp add: run_start_def)
qed

text \<open>
  C4. The scratchpad should hold only records of the current run. \<^verbatim>\<open>runAgent\<close> resets
  \<^verbatim>\<open>currentStep\<close>, \<^verbatim>\<open>isRunning\<close> and \<^verbatim>\<open>shouldStop\<close> before its loop but never the
  scratchpad. After a first run that waits once and then answers, the scratchpad holds
  that run's record; a second run on the same controller starts with it, and its oracle
  is given it on the first cycle (here the oracle returns what it is given as its
  reasoning).
\<close>

theorem scratchpad_survives_run:
  "scratchpad (snd (runAgent plain_builtins english_text wait_then_answer ''first'' new_AgentController))
     = ''Previous action observations:'' @ [CHR 0x0A, CHR 0x0A] @ ''1. 5000ms wait''
   \<and> scratchpad (run_start (snd (runAgent plain_builtins english_text wait_then_answer ''first'' new_AgentController)))
     = ''Previous action observations:'' @ [CHR 0x0A, CHR 0x0A] @ ''1. 5000ms wait''
   \<and> map reasoning (ar_steps (fst (runAgent plain_builtins english_text echo_scratchpad ''second''
        (snd (runAgent plain_builtins english_text wait_then_answer ''first'' new_AgentController)))))
     = [Some (''Previous action observations:'' @ [CHR 0x0A, CHR 0x0A] @ ''1. 5000ms wait'')]"
  by (simp add: runAgent_def run_start_def run_finally_def new_AgentController_def agent_loop.simps
      maxSteps_def wait_then_answer_def echo_scratchpad_def cycle_with_def run_cycle_def
      predict_def sample_element_def convertPredictionToAction_def action_def
      Agent_executeAction_def getActionDescription_def num_or_def plain_builtins_def
      english_text_def updateScratchpad_def show_nat.simps Let_def)

end
